theory Spec2Isabelle
  imports Complex_Main "HOL-Library.Sublist"
begin

section \<open>Python strings\<close>

text \<open>
  Strings are lists of characters. The model covers ASCII text: \<open>lower\<close> maps the letters
  A..Z to a..z, and \<open>strip\<close> removes the ASCII characters for which Python's
  \<open>str.isspace\<close> holds (codes 9 to 13 and 28 to 32). \<open>x in s\<close> on strings is the
  contiguous-sublist test \<^const>\<open>sublist\<close>.
\<close>

definition lower_char :: "char \<Rightarrow> char" where
  "lower_char c =
     (let n = (of_char c :: nat) in if 65 \<le> n \<and> n \<le> 90 then char_of (n + 32) else c)"

definition lower :: "string \<Rightarrow> string" where
  "lower s = map lower_char s"

definition isspace :: "char \<Rightarrow> bool" where
  "isspace c = (let n = (of_char c :: nat) in (9 \<le> n \<and> n \<le> 13) \<or> (28 \<le> n \<and> n \<le> 32))"

definition strip :: "string \<Rightarrow> string" where
  "strip s = rev (dropWhile isspace (rev (dropWhile isspace s)))"

text \<open>\<open>s.replace(a, b)\<close> for a one-character pattern \<open>a\<close>.\<close>

definition replace :: "char \<Rightarrow> string \<Rightarrow> string \<Rightarrow> string" where
  "replace a b s = concat (map (\<lambda>c. if c = a then b else [c]) s)"

text \<open>\<open>s.split()\<close>: the maximal runs of non-space characters.\<close>

fun split_from :: "string \<Rightarrow> string \<Rightarrow> string list" where
  "split_from cur [] = (if cur = [] then [] else [cur])"
| "split_from cur (c # cs) =
     (if isspace c then (if cur = [] then split_from [] cs else cur # split_from [] cs)
      else split_from (cur @ [c]) cs)"

definition split :: "string \<Rightarrow> string list" where
  "split s = split_from [] s"

fun join :: "string \<Rightarrow> string list \<Rightarrow> string" where
  "join sep [] = []"
| "join sep [x] = x"
| "join sep (x # y # ys) = x @ sep @ join sep (y # ys)"

text \<open>Truth value of an optional string: \<open>None\<close> and the empty string are false.\<close>

fun truthy :: "string option \<Rightarrow> bool" where
  "truthy None = False"
| "truthy (Some s) = (s \<noteq> [])"

section \<open>Errors\<close>

text \<open>
  The exceptions a healing round can end in. The two \<open>Exception(...)\<close> raised by
  \<open>self_heal_selector\<close> carry the names the specification gives them; the others are the
  Python exceptions raised implicitly by the operations used.
\<close>

datatype error =
    NoCandidatesFound
  | HealingVerificationFailed
  | NoSuchElementException
  | AttributeError
  | KeyError
  | ValueError
  | IndexError

section \<open>Live elements and the page driver\<close>

text \<open>
  A live element as the code reads it: its tag name, its attributes (\<open>get_attribute\<close> gives
  \<open>None\<close> for an attribute the element lacks), its visible text, and its parent, which
  \<open>find_element(By.XPATH, "..")\<close> returns or fails to find.
\<close>

datatype element =
  Element (tag_name: string) (attributes: "(string \<times> string) list") (element_text: string)
          (parent_of: "element option")

definition get_attribute :: "element \<Rightarrow> string \<Rightarrow> string option" where
  "get_attribute e k = map_of (attributes e) k"

text \<open>
  The driver at one moment of the page: its title, the single-element query by XPath
  (\<open>None\<close> is \<open>NoSuchElementException\<close>) and the query of all elements of a tag.
\<close>

record driver =
  title :: string
  find_element :: "string \<Rightarrow> element option"
  find_elements :: "string \<Rightarrow> element list"

section \<open>Attribute snapshots\<close>

text \<open>
  The dictionary built by \<open>capture_element_attributes\<close>. A field that is \<open>None\<close> stands
  for a key that is missing or holds \<open>None\<close>: \<open>golden.get(k)\<close> is \<open>None\<close> in both cases.
  The key \<open>innerHTML\<close> exists only for \<open>div\<close> elements.
\<close>

record parent_snapshot =
  p_tag :: string
  p_id :: "string option"
  p_class :: "string option"
  p_name :: "string option"
  p_testid :: "string option"

record snapshot =
  g_tag :: string
  g_id :: "string option"
  g_class :: "string option"
  g_name :: "string option"
  g_testid :: "string option"
  g_text :: "string option"
  g_innerHTML :: "string option"
  g_parent :: "parent_snapshot option"

text \<open>
  \<open>capture_element_attributes\<close>. For a \<open>div\<close> whose \<open>innerHTML\<close> attribute is \<open>None\<close> the
  call \<open>.strip()\<close> raises; a parent that cannot be found is caught and stored as \<open>None\<close>.
\<close>

definition capture_parent :: "element \<Rightarrow> parent_snapshot option" where
  "capture_parent element =
     (case parent_of element of
        None \<Rightarrow> None
      | Some parent \<Rightarrow>
          Some \<lparr>p_tag = tag_name parent,
                p_id = get_attribute parent ''id'',
                p_class = get_attribute parent ''class'',
                p_name = get_attribute parent ''name'',
                p_testid = get_attribute parent ''data-testid''\<rparr>)"

definition capture_element_attributes :: "element \<Rightarrow> error + snapshot" where
  "capture_element_attributes element =
     (let attributes =
            \<lparr>g_tag = tag_name element,
             g_id = get_attribute element ''id'',
             g_class = get_attribute element ''class'',
             g_name = get_attribute element ''name'',
             g_testid = get_attribute element ''data-testid'',
             g_text = Some (strip (element_text element)),
             g_innerHTML = None,
             g_parent = None\<rparr>
      in if lower (tag_name element) = ''div'' then
           (case get_attribute element ''innerHTML'' of
              None \<Rightarrow> Inl AttributeError
            | Some h \<Rightarrow>
                Inr (attributes\<lparr>g_innerHTML := Some (strip h),
                                 g_parent := capture_parent element\<rparr>))
         else Inr (attributes\<lparr>g_parent := capture_parent element\<rparr>))"

section \<open>Heuristic similarity and feature extraction\<close>

text \<open>
  \<open>compute_similarity\<close>: the score is accumulated in the order of the source. Reading the
  candidate's \<open>innerHTML\<close> happens only when the golden has a non-empty one, and raises
  when the attribute is \<open>None\<close>. The parent block adds nothing when the candidate has no
  parent (the exception is swallowed) or the golden has none.
\<close>

definition parent_score :: "snapshot \<Rightarrow> element \<Rightarrow> nat" where
  "parent_score golden candidate =
     (case parent_of candidate of
        None \<Rightarrow> 0
      | Some candidate_parent \<Rightarrow>
          (case g_parent golden of
             None \<Rightarrow> 0
           | Some golden_parent \<Rightarrow>
               (if lower (tag_name candidate_parent) = lower (p_tag golden_parent) then 2 else 0)
             + (if get_attribute candidate_parent ''id'' = p_id golden_parent then 5 else 0)
             + (if get_attribute candidate_parent ''class'' = p_class golden_parent
                then 3 else 0)))"

definition compute_similarity :: "snapshot \<Rightarrow> element \<Rightarrow> error + nat" where
  "compute_similarity golden candidate =
     (if lower (tag_name candidate) \<noteq> lower (g_tag golden) then Inr 0
      else
        let score = 0;
            score = (if get_attribute candidate ''id'' = g_id golden then score + 10 else score);
            score = (if get_attribute candidate ''name'' = g_name golden
                     then score + 10 else score);
            score = (if get_attribute candidate ''data-testid'' = g_testid golden
                     then score + 8 else score);
            score = (if get_attribute candidate ''class'' = g_class golden
                     then score + 5 else score);
            candidate_text = strip (element_text candidate);
            score = (if candidate_text \<noteq> [] \<and> truthy (g_text golden)
                        \<and> sublist (the (g_text golden)) candidate_text
                     then score + 3 else score)
        in if truthy (g_innerHTML golden) then
             (case get_attribute candidate ''innerHTML'' of
                None \<Rightarrow> Inl AttributeError
              | Some h \<Rightarrow>
                  let candidate_innerHTML = strip h;
                      score = (if candidate_innerHTML \<noteq> []
                                  \<and> sublist (the (g_innerHTML golden)) candidate_innerHTML
                               then score + 2 else score)
                  in Inr (score + parent_score golden candidate))
           else Inr (score + parent_score golden candidate))"

text \<open>
  \<open>extract_features\<close>: the ten features in the order of the source. \<open>f6\<close> is the raw score
  divided by 48, kept as an exact rational. \<open>f5\<close> tests the candidate's \<open>innerHTML\<close> as it
  is, not stripped, and tolerates \<open>None\<close>; the call of \<open>compute_similarity\<close> that follows
  does not.
\<close>

definition parent_flags :: "snapshot \<Rightarrow> element \<Rightarrow> rat list" where
  "parent_flags golden candidate =
     (case parent_of candidate of
        None \<Rightarrow> [0, 0, 0]
      | Some candidate_parent \<Rightarrow>
          (case g_parent golden of
             None \<Rightarrow> [0, 0, 0]
           | Some golden_parent \<Rightarrow>
               [if lower (tag_name candidate_parent) = lower (p_tag golden_parent) then 1 else 0,
                if get_attribute candidate_parent ''id'' = p_id golden_parent then 1 else 0,
                if get_attribute candidate_parent ''class'' = p_class golden_parent
                then 1 else 0]))"

definition extract_features :: "snapshot \<Rightarrow> element \<Rightarrow> error + rat list" where
  "extract_features golden candidate =
     (let f0 = (if get_attribute candidate ''id'' = g_id golden then 1 else 0);
          f1 = (if get_attribute candidate ''name'' = g_name golden then 1 else 0);
          f2 = (if get_attribute candidate ''data-testid'' = g_testid golden then 1 else 0);
          f3 = (if get_attribute candidate ''class'' = g_class golden then 1 else 0);
          candidate_text = strip (element_text candidate);
          f4 = (if candidate_text \<noteq> [] \<and> truthy (g_text golden)
                   \<and> sublist (the (g_text golden)) candidate_text then 1 else 0);
          f5 = (if truthy (g_innerHTML golden)
                   \<and> truthy (get_attribute candidate ''innerHTML'')
                   \<and> sublist (the (g_innerHTML golden))
                        (the (get_attribute candidate ''innerHTML''))
                then 1 else 0)
      in case compute_similarity golden candidate of
           Inl e \<Rightarrow> Inl e
         | Inr raw_score \<Rightarrow>
             Inr ([f0, f1, f2, f3, f4, f5, of_nat raw_score / 48]
                  @ parent_flags golden candidate))"

section \<open>Golden identifiers and synthesized selectors\<close>

text \<open>\<open>a or b\<close> on optional strings.\<close>

definition py_or :: "string option \<Rightarrow> string option \<Rightarrow> string option" where
  "py_or a b = (if truthy a then a else b)"

text \<open>
  \<open>driver.title.replace(" ", "_")\<close>, the page key, and the chain of replacements that
  sanitizes the original XPath.
\<close>

definition page_key_of :: "driver \<Rightarrow> string" where
  "page_key_of driver = replace (CHR '' '') ''_'' (title driver)"

definition sanitize_xpath :: "string \<Rightarrow> string" where
  "sanitize_xpath original_xpath =
     replace (CHR ''@'') [] (replace (CHR '']'') [] (replace (CHR ''['') []
       (replace (CHR ''/'') ''_'' original_xpath)))"

text \<open>
  \<open>generate_golden_identifier\<close>. The element is an optional argument (default \<open>None\<close>); a
  live element is always true as a condition.
\<close>

definition generate_golden_identifier :: "driver \<Rightarrow> string \<Rightarrow> element option \<Rightarrow> string" where
  "generate_golden_identifier driver original_xpath element =
     (let page_key = page_key_of driver;
          from_xpath = page_key @ ''_golden_'' @ sanitize_xpath original_xpath
      in case element of
           None \<Rightarrow> from_xpath
         | Some el \<Rightarrow>
             if truthy (get_attribute el ''data-testid'')
             then page_key @ ''_golden_'' @ the (get_attribute el ''data-testid'')
             else
               let candidate = py_or (get_attribute el ''id'') (get_attribute el ''name'')
               in if truthy candidate then page_key @ ''_golden_'' @ the candidate
                  else if truthy (get_attribute el ''class'')
                  then page_key @ ''_golden_'' @ tag_name el @ ''_''
                         @ replace (CHR '' '') ''_'' (strip (the (get_attribute el ''class'')))
                  else
                    let candidate_text = strip (element_text el)
                    in if candidate_text \<noteq> [] \<and> length candidate_text < 20
                       then page_key @ ''_golden_'' @ tag_name el @ ''_''
                              @ replace (CHR '' '') ''_'' candidate_text
                       else from_xpath)"

definition quote :: string where
  "quote = [CHR 0x27]"

definition generate_selector :: "element \<Rightarrow> string" where
  "generate_selector candidate =
     (if truthy (get_attribute candidate ''id'')
      then ''//*[@id='' @ quote @ the (get_attribute candidate ''id'') @ quote @ '']''
      else if truthy (get_attribute candidate ''data-testid'')
      then ''//*[@data-testid='' @ quote @ the (get_attribute candidate ''data-testid'')
             @ quote @ '']''
      else if truthy (get_attribute candidate ''placeholder'')
      then ''//'' @ tag_name candidate @ ''[@placeholder='' @ quote
             @ the (get_attribute candidate ''placeholder'') @ quote @ '']''
      else
        let candidate_text = strip (element_text candidate)
        in if candidate_text \<noteq> []
           then ''//'' @ tag_name candidate @ ''[contains(text(), '' @ quote @ candidate_text
                  @ quote @ '')]''
           else if truthy (get_attribute candidate ''class'')
           then tag_name candidate @ ''.''
                  @ join ''.'' (split (the (get_attribute candidate ''class'')))
           else ''//'' @ tag_name candidate)"

section \<open>The learned ranker and the persisted files\<close>

text \<open>
  The classifier is consumed as a black box: \<open>fit\<close> builds a model from a corpus alone
  (\<open>XGBClassifier(...).fit\<close> on a new object) or raises, and \<open>predict_proba\<close> gives the
  class-1 probability of each row. \<open>fit\<close> does raise on corpora the program produces:
  the classifier refuses, with \<open>ValueError\<close>, labels that are all 1, which is what
  rounds over a single candidate append.
\<close>

record 'm learner =
  fit :: "rat list list \<Rightarrow> nat list \<Rightarrow> error + 'm"
  predict_proba :: "'m \<Rightarrow> rat list list \<Rightarrow> rat list"

type_synonym golden_table = "string \<rightharpoonup> (string \<rightharpoonup> snapshot)"

text \<open>
  The three persisted files (\<open>None\<close>: the file does not exist) and the names of the files
  written so far, in order.
\<close>

record 'm files =
  golden_file :: "golden_table option"
  training_file :: "(rat list list \<times> nat list) option"
  model_file :: "'m option"
  writes :: "string list"

definition GLOBAL_GOLDEN_FILE :: string where
  "GLOBAL_GOLDEN_FILE = ''global_golden.json''"

definition TRAINING_DATA_FILE :: string where
  "TRAINING_DATA_FILE = ''training_data.pkl''"

definition MODEL_FILE :: string where
  "MODEL_FILE = ''ml_model.pkl''"

definition MIN_SAMPLES_FOR_MODEL :: nat where
  "MIN_SAMPLES_FOR_MODEL = 5"

definition save_training_data :: "rat list list \<Rightarrow> nat list \<Rightarrow> 'm files \<Rightarrow> 'm files" where
  "save_training_data training_data training_labels fs =
     fs\<lparr>training_file := Some (training_data, training_labels),
        writes := writes fs @ [TRAINING_DATA_FILE]\<rparr>"

definition load_training_data :: "'m files \<Rightarrow> rat list list \<times> nat list" where
  "load_training_data fs = (case training_file fs of Some d \<Rightarrow> d | None \<Rightarrow> ([], []))"

definition save_model :: "'m \<Rightarrow> 'm files \<Rightarrow> 'm files" where
  "save_model m fs = fs\<lparr>model_file := Some m, writes := writes fs @ [MODEL_FILE]\<rparr>"

definition load_model :: "'m files \<Rightarrow> 'm option" where
  "load_model fs = model_file fs"

definition load_global_golden_data :: "'m files \<Rightarrow> golden_table" where
  "load_global_golden_data fs = (case golden_file fs of Some t \<Rightarrow> t | None \<Rightarrow> Map.empty)"

definition store_global_golden_data :: "golden_table \<Rightarrow> 'm files \<Rightarrow> 'm files" where
  "store_global_golden_data data fs =
     fs\<lparr>golden_file := Some data, writes := writes fs @ [GLOBAL_GOLDEN_FILE]\<rparr>"

section \<open>The healing round\<close>

text \<open>
  \<open>np.argmax\<close>: a scan that keeps the first position of the greatest value seen; it raises
  on an empty sequence.
\<close>

fun argmax_from :: "'a::linorder list \<Rightarrow> nat \<Rightarrow> nat \<Rightarrow> 'a \<Rightarrow> nat" where
  "argmax_from [] i best_i best = best_i"
| "argmax_from (x # xs) i best_i best =
     (if best < x then argmax_from xs (Suc i) i x else argmax_from xs (Suc i) best_i best)"

definition argmax :: "'a::linorder list \<Rightarrow> error + nat" where
  "argmax xs = (case xs of [] \<Rightarrow> Inl ValueError | x # rest \<Rightarrow> Inr (argmax_from rest 1 0 x))"

text \<open>\<open>xs[i]\<close> for a non-negative index.\<close>

definition item :: "'a list \<Rightarrow> nat \<Rightarrow> error + 'a" where
  "item xs i = (if i < length xs then Inr (xs ! i) else Inl IndexError)"

definition get_all_candidates :: "driver \<Rightarrow> snapshot \<Rightarrow> element list" where
  "get_all_candidates driver golden = find_elements driver (g_tag golden)"

text \<open>
  The scoring loop: the feature vector and the heuristic score of each candidate, in
  order. An exception in either call leaves the loop with nothing appended anywhere.
\<close>

fun score_candidates :: "snapshot \<Rightarrow> element list \<Rightarrow> error + (rat list list \<times> nat list)" where
  "score_candidates golden [] = Inr ([], [])"
| "score_candidates golden (candidate # rest) =
     (case extract_features golden candidate of
        Inl e \<Rightarrow> Inl e
      | Inr features \<Rightarrow>
          (case compute_similarity golden candidate of
             Inl e \<Rightarrow> Inl e
           | Inr s \<Rightarrow>
               (case score_candidates golden rest of
                  Inl e \<Rightarrow> Inl e
                | Inr (features_list, heuristic_scores) \<Rightarrow>
                    Inr (features # features_list, s # heuristic_scores))))"

definition make_labels :: "nat \<Rightarrow> nat \<Rightarrow> nat list" where
  "make_labels best_index_heuristic n =
     map (\<lambda>i. if i = best_index_heuristic then 1 else 0) [0..<n]"

text \<open>
  The block \<open>if len(training_labels) >= MIN_SAMPLES_FOR_MODEL\<close>. \<open>clf.fit\<close> stands before
  the two saves: when it raises, nothing is written and the exception leaves the round.
\<close>

definition retrain ::
  "'m learner \<Rightarrow> rat list list \<Rightarrow> nat list \<Rightarrow> 'm option \<Rightarrow> 'm files
     \<Rightarrow> error + ('m option \<times> 'm files)" where
  "retrain L training_data training_labels model fs =
     (if length training_labels \<ge> MIN_SAMPLES_FOR_MODEL then
        (case fit L training_data training_labels of
           Inl e \<Rightarrow> Inl e
         | Inr clf \<Rightarrow>
             Inr (Some clf,
                  save_model clf (save_training_data training_data training_labels fs)))
      else Inr (model, fs))"

text \<open>The block \<open>if model is not None\<close>: the chosen candidate.\<close>

definition choose_candidate ::
  "'m learner \<Rightarrow> 'm option \<Rightarrow> rat list list \<Rightarrow> element list \<Rightarrow> nat \<Rightarrow> error + element" where
  "choose_candidate L model features_list candidate_list best_index_heuristic =
     (case model of
        Some m \<Rightarrow>
          (case argmax (predict_proba L m features_list) of
             Inl e \<Rightarrow> Inl e
           | Inr best_index_model \<Rightarrow> item candidate_list best_index_model)
      | None \<Rightarrow> item candidate_list best_index_heuristic)"

text \<open>The last block: synthesize the selector and resolve it on the live page.\<close>

definition verify :: "driver \<Rightarrow> element \<Rightarrow> error + (string \<times> element)" where
  "verify driver chosen_candidate =
     (let new_selector = generate_selector chosen_candidate
      in case find_element driver new_selector of
           Some found \<Rightarrow> Inr (new_selector, chosen_candidate)
         | None \<Rightarrow> Inl HealingVerificationFailed)"

text \<open>
  The state a round leaves behind, whether it returns or raises: the two corpus lists
  (extended in place, so the caller's lists change even when the round raises later),
  the model the round ranked with (\<open>None\<close>: the heuristic ranked, or the round raised
  before it ranked; it is the model a returning call returns), and the files.
  \<open>outcome\<close> is what the call returns (the new selector and the chosen candidate) or
  raises; \<open>chosen\<close> is the local \<open>chosen_candidate\<close>, kept for the rounds that raise
  after choosing.
\<close>

record 'm round =
  outcome :: "error + (string \<times> element)"
  chosen :: "error + element"
  data_after :: "rat list list"
  labels_after :: "nat list"
  model_after :: "'m option"
  files_after :: "'m files"

text \<open>A round that raises \<open>e\<close> before it ranks, with the lists and files as they are then.\<close>

definition aborted :: "error \<Rightarrow> rat list list \<Rightarrow> nat list \<Rightarrow> 'm files \<Rightarrow> 'm round" where
  "aborted e training_data training_labels fs =
     \<lparr>outcome = Inl e, chosen = Inl e, data_after = training_data,
      labels_after = training_labels, model_after = None, files_after = fs\<rparr>"

definition self_heal_selector ::
  "'m learner \<Rightarrow> driver \<Rightarrow> snapshot \<Rightarrow> rat list list \<Rightarrow> nat list \<Rightarrow> 'm option \<Rightarrow> 'm files
     \<Rightarrow> 'm round" where
  "self_heal_selector L driver golden training_data training_labels model fs =
     (let candidates = get_all_candidates driver golden
      in if candidates = [] then aborted NoCandidatesFound training_data training_labels fs
         else
           case score_candidates golden candidates of
             Inl e \<Rightarrow> aborted e training_data training_labels fs
           | Inr (features_list, heuristic_scores) \<Rightarrow>
               (case argmax heuristic_scores of
                  Inl e \<Rightarrow> aborted e training_data training_labels fs
                | Inr best_index_heuristic \<Rightarrow>
                    let labels = make_labels best_index_heuristic (length candidates);
                        training_data = training_data @ features_list;
                        training_labels = training_labels @ labels
                    in case retrain L training_data training_labels model fs of
                         Inl e \<Rightarrow> aborted e training_data training_labels fs
                       | Inr (model, fs) \<Rightarrow>
                           let chosen_candidate =
                                 choose_candidate L model features_list candidates
                                   best_index_heuristic
                           in \<lparr>outcome = (case chosen_candidate of
                                            Inl e \<Rightarrow> Inl e
                                          | Inr c \<Rightarrow> verify driver c),
                               chosen = chosen_candidate,
                               data_after = training_data,
                               labels_after = training_labels,
                               model_after = model,
                               files_after = fs\<rparr>))"

text \<open>
  A sequence of rounds on one corpus, threaded as the agent threads it: the lists and the
  files keep what a round did to them; the model of a round that raised is dropped.
\<close>

fun heal_rounds ::
  "'m learner \<Rightarrow> (driver \<times> snapshot) list \<Rightarrow> rat list list \<Rightarrow> nat list \<Rightarrow> 'm option
     \<Rightarrow> 'm files \<Rightarrow> rat list list \<times> nat list \<times> 'm option \<times> 'm files" where
  "heal_rounds L [] training_data training_labels model fs =
     (training_data, training_labels, model, fs)"
| "heal_rounds L ((driver, golden) # rest) training_data training_labels model fs =
     (let r = self_heal_selector L driver golden training_data training_labels model fs
      in heal_rounds L rest (data_after r) (labels_after r)
           (case outcome r of Inl e \<Rightarrow> model | Inr ok \<Rightarrow> model_after r) (files_after r))"

text \<open>
  \<open>get_updated_locator\<close>. A golden that is \<open>None\<close> makes \<open>golden.get\<close> raise in the first
  statement of the healing round, before anything is changed.
\<close>

definition get_updated_locator ::
  "'m learner \<Rightarrow> driver \<Rightarrow> string \<Rightarrow> snapshot option \<Rightarrow> rat list list \<Rightarrow> nat list
     \<Rightarrow> 'm option \<Rightarrow> 'm files
     \<Rightarrow> (error + (string \<times> element option \<times> 'm option)) \<times> rat list list \<times> nat list \<times> 'm files"
  where
  "get_updated_locator L driver original_xpath golden training_data training_labels model fs =
     (case find_element driver original_xpath of
        Some found \<Rightarrow> (Inr (original_xpath, None, model), training_data, training_labels, fs)
      | None \<Rightarrow>
          (case golden of
             None \<Rightarrow> (Inl AttributeError, training_data, training_labels, fs)
           | Some g \<Rightarrow>
               let r = self_heal_selector L driver g training_data training_labels model fs
               in ((case outcome r of
                      Inl e \<Rightarrow> Inl e
                    | Inr (new_selector, chosen_candidate) \<Rightarrow>
                        Inr (new_selector, Some chosen_candidate, model_after r)),
                   data_after r, labels_after r, files_after r)))"

section \<open>The agent\<close>

record 'm agent =
  self_global_data :: golden_table
  self_page_key :: string
  self_training_data :: "rat list list"
  self_training_labels :: "nat list"
  self_model :: "'m option"

definition agent_init :: "driver \<Rightarrow> 'm files \<Rightarrow> 'm agent \<times> 'm files" where
  "agent_init driver fs =
     (let global_data = load_global_golden_data fs;
          page_key = page_key_of driver;
          (global_data, fs) =
            (if global_data page_key = None
             then (global_data(page_key \<mapsto> Map.empty),
                   store_global_golden_data (global_data(page_key \<mapsto> Map.empty)) fs)
             else (global_data, fs));
          (training_data, training_labels) = load_training_data fs
      in (\<lparr>self_global_data = global_data, self_page_key = page_key,
           self_training_data = training_data, self_training_labels = training_labels,
           self_model = load_model fs\<rparr>, fs))"

text \<open>
  \<open>capture_golden_if_missing\<close>. The identifier is generated without an element. Every
  exception inside the \<open>try\<close> is caught and the identifier is returned all the same;
  \<open>self.global_data[self.page_key]\<close> stands before the \<open>try\<close>.
\<close>

definition capture_golden_if_missing ::
  "'m agent \<Rightarrow> driver \<Rightarrow> string \<Rightarrow> 'm files \<Rightarrow> (error + string) \<times> 'm agent \<times> 'm files" where
  "capture_golden_if_missing self driver original_xpath fs =
     (let golden_id = generate_golden_identifier driver original_xpath None
      in case self_global_data self (self_page_key self) of
           None \<Rightarrow> (Inl KeyError, self, fs)
         | Some page \<Rightarrow>
             if page golden_id = None then
               (case find_element driver original_xpath of
                  None \<Rightarrow> (Inr golden_id, self, fs)
                | Some element \<Rightarrow>
                    (case capture_element_attributes element of
                       Inl e \<Rightarrow> (Inr golden_id, self, fs)
                     | Inr golden \<Rightarrow>
                         let global_data =
                               (self_global_data self)
                                 (self_page_key self \<mapsto> page(golden_id \<mapsto> golden))
                         in (Inr golden_id, self\<lparr>self_global_data := global_data\<rparr>,
                             store_global_golden_data global_data fs)))
             else (Inr golden_id, self, fs))"

definition locate_element ::
  "'m learner \<Rightarrow> 'm agent \<Rightarrow> driver \<Rightarrow> string \<Rightarrow> 'm files
     \<Rightarrow> (error + element) \<times> 'm agent \<times> 'm files" where
  "locate_element L self driver original_xpath fs =
     (case capture_golden_if_missing self driver original_xpath fs of
        (Inl e, self, fs) \<Rightarrow> (Inl e, self, fs)
      | (Inr golden_identifier, self, fs) \<Rightarrow>
          (case self_global_data self (self_page_key self) of
             None \<Rightarrow> (Inl KeyError, self, fs)
           | Some page \<Rightarrow>
               (case find_element driver original_xpath of
                  Some element \<Rightarrow> (Inr element, self, fs)
                | None \<Rightarrow>
                    (case get_updated_locator L driver original_xpath (page golden_identifier)
                            (self_training_data self) (self_training_labels self)
                            (self_model self) fs of
                       (Inl e, training_data, training_labels, fs) \<Rightarrow>
                         (Inl e, self\<lparr>self_training_data := training_data,
                                        self_training_labels := training_labels\<rparr>, fs)
                     | (Inr (new_locator, el, model), training_data, training_labels, fs) \<Rightarrow>
                         let self = self\<lparr>self_training_data := training_data,
                                          self_training_labels := training_labels,
                                          self_model := model\<rparr>
                         in (case find_element driver new_locator of
                               Some element \<Rightarrow> (Inr element, self, fs)
                             | None \<Rightarrow> (Inl NoSuchElementException, self, fs))))))"

section \<open>Properties used in the statements\<close>

text \<open>
  \<open>is_first_max xs b\<close>: position \<open>b\<close> holds a greatest value of \<open>xs\<close> and every earlier
  position holds a strictly smaller one.
\<close>

definition is_first_max :: "'a::linorder list \<Rightarrow> nat \<Rightarrow> bool" where
  "is_first_max xs b \<longleftrightarrow>
     b < length xs \<and> (\<forall>j < length xs. xs ! j \<le> xs ! b) \<and> (\<forall>j < b. xs ! j < xs ! b)"

section \<open>Example pages\<close>

subsection \<open>Elements and snapshots\<close>

definition bare_golden :: "string \<Rightarrow> snapshot" where
  "bare_golden t =
     \<lparr>g_tag = t, g_id = None, g_class = None, g_name = None, g_testid = None,
      g_text = None, g_innerHTML = None, g_parent = None\<rparr>"

definition example_body :: element where
  "example_body = Element ''body'' [(''id'', ''root''), (''class'', ''page'')] [] None"

definition example_div :: element where
  "example_div =
     Element ''div''
       [(''id'', ''main''), (''class'', ''box''), (''name'', ''n''), (''data-testid'', ''t''),
        (''innerHTML'', '' <b>Hello</b> '')]
       '' Hello '' (Some example_body)"

definition example_div_golden :: snapshot where
  "example_div_golden =
     \<lparr>g_tag = ''div'', g_id = Some ''main'', g_class = Some ''box'', g_name = Some ''n'',
      g_testid = Some ''t'', g_text = Some ''Hello'', g_innerHTML = Some ''<b>Hello</b>'',
      g_parent = Some \<lparr>p_tag = ''body'', p_id = Some ''root'', p_class = Some ''page'',
                        p_name = None, p_testid = None\<rparr>\<rparr>"

definition image_div :: element where
  "image_div =
     Element ''div''
       [(''id'', ''logo''), (''class'', ''brand''), (''name'', ''logo''),
        (''data-testid'', ''logo-box''), (''innerHTML'', ''<img src=logo.png>'')]
       [] (Some example_body)"

definition image_div_golden :: snapshot where
  "image_div_golden =
     \<lparr>g_tag = ''div'', g_id = Some ''logo'', g_class = Some ''brand'', g_name = Some ''logo'',
      g_testid = Some ''logo-box'', g_text = Some [], g_innerHTML = Some ''<img src=logo.png>'',
      g_parent = Some \<lparr>p_tag = ''body'', p_id = Some ''root'', p_class = Some ''page'',
                        p_name = None, p_testid = None\<rparr>\<rparr>"

definition example_form :: element where
  "example_form = Element ''form'' [(''id'', ''f''), (''class'', ''form'')] ''Submit'' None"

definition example_button :: element where
  "example_button =
     Element ''button''
       [(''id'', ''go''), (''class'', ''btn''), (''name'', ''go''), (''data-testid'', ''go-btn'')]
       ''Submit'' (Some example_form)"

definition example_button_golden :: snapshot where
  "example_button_golden =
     \<lparr>g_tag = ''button'', g_id = Some ''go'', g_class = Some ''btn'', g_name = Some ''go'',
      g_testid = Some ''go-btn'', g_text = Some ''Submit'', g_innerHTML = None,
      g_parent = Some \<lparr>p_tag = ''form'', p_id = Some ''f'', p_class = Some ''form'',
                        p_name = None, p_testid = None\<rparr>\<rparr>"

definition bare_parent :: "string \<Rightarrow> parent_snapshot" where
  "bare_parent t = \<lparr>p_tag = t, p_id = None, p_class = None, p_name = None, p_testid = None\<rparr>"

definition bare_input :: element where
  "bare_input = Element ''input'' [] [] (Some (Element ''form'' [] [] None))"

definition bare_input_golden :: snapshot where
  "bare_input_golden = (bare_golden ''input'')\<lparr>g_parent := Some (bare_parent ''form'')\<rparr>"

subsection \<open>A login page\<close>

definition email_golden :: snapshot where
  "email_golden = (bare_golden ''input'')\<lparr>g_id := Some ''email'', g_name := Some ''email''\<rparr>"

definition cand_search :: element where
  "cand_search =
     Element ''input'' [(''id'', ''search''), (''name'', ''q''), (''class'', ''wide'')] [] None"

definition cand_email :: element where
  "cand_email = Element ''input'' [(''id'', ''email-v2''), (''name'', ''email'')] [] None"

definition cand_mail :: element where
  "cand_mail = Element ''input'' [(''name'', ''email''), (''placeholder'', ''Email'')] [] None"

definition login_page :: driver where
  "login_page =
     \<lparr>title = ''Login Page'',
      find_element = (\<lambda>x. if x = generate_selector cand_email then Some cand_email
                           else if x = generate_selector cand_search then Some cand_search
                           else None),
      find_elements = (\<lambda>t. if t = ''input'' then [cand_search, cand_email, cand_mail] else [])\<rparr>"

definition stale_page :: driver where
  "stale_page =
     \<lparr>title = ''Login Page'',
      find_element = (\<lambda>x. if x = ''//input'' then Some cand_search else None),
      find_elements = (\<lambda>t. if t = ''input'' then [cand_search, cand_email, cand_mail] else [])\<rparr>"

text \<open>
  Two learners whose model is the corpus it was fitted on. Their \<open>fit\<close> raises
  \<open>ValueError\<close> on labels that are all 1, as the classifier of the source does.
\<close>

definition corpus_fit :: "rat list list \<Rightarrow> nat list \<Rightarrow> error + (rat list list \<times> nat list)" where
  "corpus_fit rows labels =
     (if list_all (\<lambda>y. y = 1) labels then Inl ValueError else Inr (rows, labels))"

definition imitating_learner :: "(rat list list \<times> nat list) learner" where
  "imitating_learner =
     \<lparr>fit = corpus_fit, predict_proba = (\<lambda>m rows. map (\<lambda>f. f ! 6) rows)\<rparr>"





definition no_files :: "'m files" where
  "no_files = \<lparr>golden_file = None, training_file = None, model_file = None, writes = []\<rparr>"

definition login_features :: "rat list list" where
  "login_features =
     [[0, 0, 1, 0, 0, 0, 1 / 6, 0, 0, 0],
      [0, 1, 1, 1, 0, 0, 23 / 48, 0, 0, 0],
      [0, 1, 1, 1, 0, 0, 23 / 48, 0, 0, 0]]"

definition broken_xpath :: string where
  "broken_xpath = ''//input[@id='' @ quote @ ''email'' @ quote @ '']''"


definition login_golden_id :: string where
  "login_golden_id = generate_golden_identifier login_page broken_xpath None"

definition login_agent :: "(rat list list \<times> nat list) agent" where
  "login_agent =
     \<lparr>self_global_data = [''Login_Page'' \<mapsto> [login_golden_id \<mapsto> email_golden]],
      self_page_key = ''Login_Page'',
      self_training_data = [], self_training_labels = [], self_model = None\<rparr>"

definition moved_page :: driver where
  "moved_page =
     \<lparr>title = ''Login Page'',
      find_element = (\<lambda>x. if x = broken_xpath then Some cand_mail else None),
      find_elements = (\<lambda>t. if t = ''input'' then [cand_mail] else [])\<rparr>"

definition button_page :: driver where
  "button_page =
     \<lparr>title = ''Login Page'',
      find_element = (\<lambda>x. if x = ''//button'' then Some example_button else None),
      find_elements = (\<lambda>t. if t = ''button'' then [example_button] else [])\<rparr>"

definition fresh_agent :: "(rat list list \<times> nat list) agent" where
  "fresh_agent = fst (agent_init button_page no_files)"

definition fresh_files :: "(rat list list \<times> nat list) files" where
  "fresh_files = snd (agent_init button_page no_files)"

definition link_class :: element where
  "link_class = Element ''a'' [(''class'', ''nav link'')] ''Home'' None"

definition link_text :: element where
  "link_text = Element ''a'' [] ''Log out'' None"

definition link_bare :: element where
  "link_bare = Element ''a'' [] [] None"

section \<open>Auxiliary facts\<close>

lemma sublist_strip: "sublist (strip s) s"
proof -
  define t where "t = dropWhile isspace s"
  have "rev (dropWhile isspace (rev t)) @ rev (takeWhile isspace (rev t)) = t"
    by (metis rev_append rev_rev_ident takeWhile_dropWhile_id)
  then have "s = takeWhile isspace s @ strip s @ rev (takeWhile isspace (rev t))"
    by (simp add: strip_def t_def)
  then show ?thesis unfolding sublist_def by blast
qed

lemma argmax_from_first_max:
  "bi < i \<Longrightarrow>
     (argmax_from xs i bi b = bi \<and> (\<forall>x\<in>set xs. x \<le> b)) \<or>
     (i \<le> argmax_from xs i bi b \<and> argmax_from xs i bi b < i + length xs
        \<and> b < xs ! (argmax_from xs i bi b - i)
        \<and> (\<forall>j < argmax_from xs i bi b - i. xs ! j < xs ! (argmax_from xs i bi b - i))
        \<and> (\<forall>x\<in>set xs. x \<le> xs ! (argmax_from xs i bi b - i)))"
proof (induction xs arbitrary: i bi b)
  case Nil
  then show ?case by simp
next
  case (Cons x xs)
  show ?case
  proof (cases "b < x")
    case True
    let ?r = "argmax_from xs (Suc i) i x"
    have eq: "argmax_from (x # xs) i bi b = ?r" using True by simp
    from Cons.IH[of i "Suc i" x]
    consider (a) "?r = i" "\<forall>y\<in>set xs. y \<le> x"
      | (b) "Suc i \<le> ?r" "?r < Suc i + length xs" "x < xs ! (?r - Suc i)"
            "\<forall>j < ?r - Suc i. xs ! j < xs ! (?r - Suc i)" "\<forall>y\<in>set xs. y \<le> xs ! (?r - Suc i)"
      by auto
    then show ?thesis
    proof cases
      case a
      then show ?thesis using True eq by auto
    next
      case b
      have nth: "(x # xs) ! (?r - i) = xs ! (?r - Suc i)"
        using b(1) by (simp add: nth_Cons')
      have "\<forall>j < ?r - i. (x # xs) ! j < xs ! (?r - Suc i)"
      proof (intro allI impI)
        fix j assume "j < ?r - i"
        then show "(x # xs) ! j < xs ! (?r - Suc i)"
          using b(3,4) by (cases j) auto
      qed
      moreover have "\<forall>y\<in>set (x # xs). y \<le> xs ! (?r - Suc i)"
        using b(3,5) by auto
      moreover have "b < xs ! (?r - Suc i)" using True b(3) by simp
      ultimately show ?thesis using b(1,2) eq nth by auto
    qed
  next
    case False
    let ?r = "argmax_from xs (Suc i) bi b"
    have eq: "argmax_from (x # xs) i bi b = ?r" using False by simp
    have "bi < Suc i" using Cons.prems by simp
    from Cons.IH[OF this, of b]
    consider (a) "?r = bi" "\<forall>y\<in>set xs. y \<le> b"
      | (b) "Suc i \<le> ?r" "?r < Suc i + length xs" "b < xs ! (?r - Suc i)"
            "\<forall>j < ?r - Suc i. xs ! j < xs ! (?r - Suc i)" "\<forall>y\<in>set xs. y \<le> xs ! (?r - Suc i)"
      by auto
    then show ?thesis
    proof cases
      case a
      then show ?thesis using False eq by auto
    next
      case b
      have nth: "(x # xs) ! (?r - i) = xs ! (?r - Suc i)"
        using b(1) by (simp add: nth_Cons')
      have "\<forall>j < ?r - i. (x # xs) ! j < xs ! (?r - Suc i)"
      proof (intro allI impI)
        fix j assume "j < ?r - i"
        then show "(x # xs) ! j < xs ! (?r - Suc i)"
          using b(3,4) False by (cases j) auto
      qed
      moreover have "\<forall>y\<in>set (x # xs). y \<le> xs ! (?r - Suc i)"
        using b(3,5) False by auto
      ultimately show ?thesis using b(1,2,3) eq nth by auto
    qed
  qed
qed

lemma argmax_first_max:
  assumes "argmax xs = Inr r"
  shows "r < length xs \<and> (\<forall>j < length xs. xs ! j \<le> xs ! r) \<and> (\<forall>j < r. xs ! j < xs ! r)"
proof (cases xs)
  case Nil
  then show ?thesis using assms by (simp add: argmax_def)
next
  case (Cons x rest)
  then have r: "r = argmax_from rest 1 0 x" using assms by (simp add: argmax_def)
  have "(0::nat) < 1" by simp
  from argmax_from_first_max[OF this, of rest x]
  consider (a) "r = 0" "\<forall>y\<in>set rest. y \<le> x"
    | (b) "1 \<le> r" "r < 1 + length rest" "x < rest ! (r - 1)"
          "\<forall>j < r - 1. rest ! j < rest ! (r - 1)" "\<forall>y\<in>set rest. y \<le> rest ! (r - 1)"
    unfolding r by auto
  then show ?thesis
  proof cases
    case a
    have "\<forall>j < length xs. xs ! j \<le> xs ! r"
    proof (intro allI impI)
      fix j assume "j < length xs"
      then show "xs ! j \<le> xs ! r" using a Cons by (cases j) auto
    qed
    then show ?thesis using a Cons by simp
  next
    case b
    have nth: "xs ! r = rest ! (r - 1)" using b(1) Cons by (simp add: nth_Cons')
    have "\<forall>j < length xs. xs ! j \<le> xs ! r"
    proof (intro allI impI)
      fix j assume "j < length xs"
      then show "xs ! j \<le> xs ! r" using b(3,5) Cons nth by (cases j) auto
    qed
    moreover have "\<forall>j < r. xs ! j < xs ! r"
    proof (intro allI impI)
      fix j assume "j < r"
      then show "xs ! j < xs ! r" using b(3,4) Cons nth by (cases j) auto
    qed
    ultimately show ?thesis using b(2) Cons by simp
  qed
qed

lemma argmax_nonempty: "xs \<noteq> [] \<Longrightarrow> \<exists>r. argmax xs = Inr r"
  by (cases xs) (simp_all add: argmax_def)

lemma score_candidates_length:
  "score_candidates g cs = Inr (fl, hs) \<Longrightarrow> length fl = length cs \<and> length hs = length cs"
  by (induction cs arbitrary: fl hs) (auto split: sum.splits prod.splits)

lemma parent_score_upd [simp]:
  "parent_score (g\<lparr>g_id := a\<rparr>) c = parent_score g c"
  "parent_score (g\<lparr>g_name := a\<rparr>) c = parent_score g c"
  "parent_score (g\<lparr>g_testid := a\<rparr>) c = parent_score g c"
  "parent_score (g\<lparr>g_class := a\<rparr>) c = parent_score g c"
  by (simp_all add: parent_score_def split: option.splits)

lemma absent_id:
  assumes "lower (tag_name c) = lower (g_tag g)" "g_id g = None" "get_attribute c ''id'' = None"
  shows "compute_similarity g c
           = map_sum id (\<lambda>s. s + 10) (compute_similarity (g\<lparr>g_id := Some v\<rparr>) c)"
  using assms by (auto simp: compute_similarity_def Let_def split: option.splits)

lemma absent_name:
  assumes "lower (tag_name c) = lower (g_tag g)" "g_name g = None"
    "get_attribute c ''name'' = None"
  shows "compute_similarity g c
           = map_sum id (\<lambda>s. s + 10) (compute_similarity (g\<lparr>g_name := Some v\<rparr>) c)"
  using assms by (auto simp: compute_similarity_def Let_def split: option.splits)

lemma absent_testid:
  assumes "lower (tag_name c) = lower (g_tag g)" "g_testid g = None"
    "get_attribute c ''data-testid'' = None"
  shows "compute_similarity g c
           = map_sum id (\<lambda>s. s + 8) (compute_similarity (g\<lparr>g_testid := Some v\<rparr>) c)"
  using assms by (auto simp: compute_similarity_def Let_def split: option.splits)

lemma absent_class:
  assumes "lower (tag_name c) = lower (g_tag g)" "g_class g = None"
    "get_attribute c ''class'' = None"
  shows "compute_similarity g c
           = map_sum id (\<lambda>s. s + 5) (compute_similarity (g\<lparr>g_class := Some v\<rparr>) c)"
  using assms by (auto simp: compute_similarity_def Let_def split: option.splits)

lemma absent_parent_id:
  assumes "lower (tag_name c) = lower (g_tag g)" "g_parent g = Some gp" "parent_of c = Some cp"
    "p_id gp = None" "get_attribute cp ''id'' = None"
  shows "compute_similarity g c
           = map_sum id (\<lambda>s. s + 5)
               (compute_similarity (g\<lparr>g_parent := Some (gp\<lparr>p_id := Some v\<rparr>)\<rparr>) c)"
  using assms
  by (auto simp: compute_similarity_def parent_score_def Let_def split: option.splits)

lemma absent_parent_class:
  assumes "lower (tag_name c) = lower (g_tag g)" "g_parent g = Some gp" "parent_of c = Some cp"
    "p_class gp = None" "get_attribute cp ''class'' = None"
  shows "compute_similarity g c
           = map_sum id (\<lambda>s. s + 3)
               (compute_similarity (g\<lparr>g_parent := Some (gp\<lparr>p_class := Some v\<rparr>)\<rparr>) c)"
  using assms
  by (auto simp: compute_similarity_def parent_score_def Let_def split: option.splits)

lemma features_shape:
  assumes "extract_features g c = Inr fs"
  shows "fs ! 0 = (if get_attribute c ''id'' = g_id g then 1 else 0)"
    and "fs ! 1 = (if get_attribute c ''name'' = g_name g then 1 else 0)"
    and "fs ! 2 = (if get_attribute c ''data-testid'' = g_testid g then 1 else 0)"
    and "fs ! 3 = (if get_attribute c ''class'' = g_class g then 1 else 0)"
    and "drop 7 fs = parent_flags g c"
    and "length fs = 10"
  using assms
  by (auto simp: extract_features_def Let_def parent_flags_def split: sum.splits option.splits)

lemma absent_score_33:
  assumes "lower (tag_name c) = lower (g_tag g)"
    "g_id g = None" "get_attribute c ''id'' = None"
    "g_name g = None" "get_attribute c ''name'' = None"
    "g_testid g = None" "get_attribute c ''data-testid'' = None"
    "g_class g = None" "get_attribute c ''class'' = None"
    "compute_similarity g c = Inr s"
  shows "33 \<le> s"
  using assms by (auto simp: compute_similarity_def Let_def split: option.splits if_splits)

lemma argmax_is_first_max: "argmax xs = Inr b \<Longrightarrow> is_first_max xs b"
  using argmax_first_max[of xs b] by (simp add: is_first_max_def)

lemma is_first_max_unique: "is_first_max xs a \<Longrightarrow> is_first_max xs b \<Longrightarrow> a = b"
  unfolding is_first_max_def by (metis linorder_neqE_nat not_less)

lemma score_candidates_nth:
  "score_candidates g cs = Inr (fl, hs) \<Longrightarrow> i < length cs \<Longrightarrow>
     compute_similarity g (cs ! i) = Inr (hs ! i) \<and> extract_features g (cs ! i) = Inr (fl ! i)"
proof (induction cs arbitrary: fl hs i)
  case Nil
  then show ?case by simp
next
  case (Cons c cs)
  from Cons.prems(1) obtain f s fl' hs' where
    c: "extract_features g c = Inr f" "compute_similarity g c = Inr s"
      "score_candidates g cs = Inr (fl', hs')" "fl = f # fl'" "hs = s # hs'"
    by (auto split: sum.splits prod.splits)
  show ?case
  proof (cases i)
    case 0
    then show ?thesis using c by simp
  next
    case (Suc k)
    then have "k < length cs" using Cons.prems(2) by simp
    from Cons.IH[OF c(3) this] show ?thesis using c Suc by simp
  qed
qed

lemma scored_argmax:
  assumes "cs \<noteq> []" "score_candidates g cs = Inr (fl, hs)"
  shows "\<exists>b. argmax hs = Inr b"
proof -
  have "length hs = length cs" using score_candidates_length[OF assms(2)] by simp
  then have "hs \<noteq> []" using assms(1) by auto
  then show ?thesis by (rule argmax_nonempty)
qed

lemma scored_round:
  assumes "get_all_candidates d g \<noteq> []"
    and "score_candidates g (get_all_candidates d g) = Inr (fl, hs)"
    and "argmax hs = Inr b"
  shows "data_after (self_heal_selector L d g data lbls m fs) = data @ fl"
    and "labels_after (self_heal_selector L d g data lbls m fs)
           = lbls @ make_labels b (length (get_all_candidates d g))"
    and "model_after (self_heal_selector L d g data lbls m fs)
           = (case retrain L (data @ fl)
                     (lbls @ make_labels b (length (get_all_candidates d g))) m fs of
                Inl e \<Rightarrow> None | Inr (m', fs') \<Rightarrow> m')"
    and "files_after (self_heal_selector L d g data lbls m fs)
           = (case retrain L (data @ fl)
                     (lbls @ make_labels b (length (get_all_candidates d g))) m fs of
                Inl e \<Rightarrow> fs | Inr (m', fs') \<Rightarrow> fs')"
    and "chosen (self_heal_selector L d g data lbls m fs)
           = (case retrain L (data @ fl)
                     (lbls @ make_labels b (length (get_all_candidates d g))) m fs of
                Inl e \<Rightarrow> Inl e
              | Inr (m', fs') \<Rightarrow> choose_candidate L m' fl (get_all_candidates d g) b)"
  using assms
  by (simp_all add: self_heal_selector_def Let_def aborted_def split: prod.splits sum.splits)

lemma aborted_round:
  assumes "get_all_candidates d g = [] \<or> score_candidates g (get_all_candidates d g) = Inl e"
  shows "data_after (self_heal_selector L d g data lbls m fs) = data"
    and "labels_after (self_heal_selector L d g data lbls m fs) = lbls"
    and "files_after (self_heal_selector L d g data lbls m fs) = fs"
    and "\<exists>e'. outcome (self_heal_selector L d g data lbls m fs) = Inl e'"
  using assms by (auto simp: self_heal_selector_def Let_def aborted_def)

lemma outcome_from_chosen:
  "outcome (self_heal_selector L d g data lbls m fs)
     = (case chosen (self_heal_selector L d g data lbls m fs) of
          Inl e \<Rightarrow> Inl e | Inr c \<Rightarrow> verify d c)"
  by (simp add: self_heal_selector_def Let_def aborted_def split: sum.splits prod.splits)

lemma ranked_with_model:
  assumes "get_all_candidates d g \<noteq> []"
    and "score_candidates g (get_all_candidates d g) = Inr (fl, hs)"
    and "argmax hs = Inr b"
    and "model_after (self_heal_selector L d g data lbls m fs) = Some mm"
  shows "chosen (self_heal_selector L d g data lbls m fs)
           = choose_candidate L (Some mm) fl (get_all_candidates d g) b"
  using scored_round(3,5)[OF assms(1-3), of L data lbls m fs] assms(4)
  by (auto split: sum.splits prod.splits)

lemma length_make_labels [simp]: "length (make_labels b n) = n"
  by (simp add: make_labels_def)

lemma choose_with_model:
  assumes "length (predict_proba L mm fl) = length cs" "cs \<noteq> []"
  shows "\<exists>j. is_first_max (predict_proba L mm fl) j
             \<and> choose_candidate L (Some mm) fl cs b = Inr (cs ! j)"
proof -
  have "predict_proba L mm fl \<noteq> []" using assms by auto
  then obtain j where j: "argmax (predict_proba L mm fl) = Inr j"
    using argmax_nonempty by blast
  then have fm: "is_first_max (predict_proba L mm fl) j" by (rule argmax_is_first_max)
  then have "j < length cs" using assms(1) by (simp add: is_first_max_def)
  then have "choose_candidate L (Some mm) fl cs b = Inr (cs ! j)"
    using j by (simp add: choose_candidate_def item_def)
  with fm show ?thesis by blast
qed





lemma login_scored:
  "get_all_candidates login_page email_golden = [cand_search, cand_email, cand_mail]"
  "score_candidates email_golden (get_all_candidates login_page email_golden)
     = Inr (login_features, [8, 23, 23])"
  by code_simp+



lemma round_growth:
  "\<exists>n. length (data_after (self_heal_selector L d g data lbls m fs)) = length data + n
       \<and> length (labels_after (self_heal_selector L d g data lbls m fs)) = length lbls + n
       \<and> ((\<exists>fl hs. score_candidates g (get_all_candidates d g) = Inr (fl, hs))
            \<longrightarrow> n = length (get_all_candidates d g))"
proof (cases "get_all_candidates d g = []")
  case True
  then show ?thesis using aborted_round(1,2)[of d g undefined L data lbls m fs] by simp
next
  case False
  show ?thesis
  proof (cases "score_candidates g (get_all_candidates d g)")
    case (Inl e)
    then show ?thesis using aborted_round(1,2)[of d g e L data lbls m fs] by simp
  next
    case (Inr p)
    obtain fl hs where p: "p = (fl, hs)" by (cases p)
    have scored: "score_candidates g (get_all_candidates d g) = Inr (fl, hs)"
      using Inr p by simp
    obtain b where b: "argmax hs = Inr b" using scored_argmax[OF False scored] by blast
    have "length fl = length (get_all_candidates d g)"
      using score_candidates_length[OF scored] by simp
    then show ?thesis
      using scored_round(1,2)[OF False scored b, of L data lbls m fs] by simp
  qed
qed

lemma heal_rounds_growth:
  "\<exists>n. length (fst (heal_rounds L rounds data lbls m fs)) = length data + n
       \<and> length (fst (snd (heal_rounds L rounds data lbls m fs))) = length lbls + n
       \<and> ((\<forall>(d, g) \<in> set rounds.
              \<exists>fl hs. score_candidates g (get_all_candidates d g) = Inr (fl, hs))
            \<longrightarrow> n = sum_list (map (\<lambda>(d, g). length (get_all_candidates d g)) rounds))"
proof (induction rounds arbitrary: data lbls m fs)
  case Nil
  then show ?case by simp
next
  case (Cons r rounds)
  obtain d g where r: "r = (d, g)" by (cases r)
  let ?r = "self_heal_selector L d g data lbls m fs"
  let ?m = "case outcome ?r of Inl e \<Rightarrow> m | Inr ok \<Rightarrow> model_after ?r"
  from round_growth[of L d g data lbls m fs] obtain k where
    k: "length (data_after ?r) = length data + k" "length (labels_after ?r) = length lbls + k"
       "(\<exists>fl hs. score_candidates g (get_all_candidates d g) = Inr (fl, hs))
          \<longrightarrow> k = length (get_all_candidates d g)"
    by blast
  from Cons.IH[of "data_after ?r" "labels_after ?r" ?m "files_after ?r"] obtain n where
    n: "length (fst (heal_rounds L rounds (data_after ?r) (labels_after ?r) ?m (files_after ?r)))
          = length (data_after ?r) + n"
       "length (fst (snd (heal_rounds L rounds (data_after ?r) (labels_after ?r) ?m
          (files_after ?r)))) = length (labels_after ?r) + n"
       "(\<forall>(d, g) \<in> set rounds.
              \<exists>fl hs. score_candidates g (get_all_candidates d g) = Inr (fl, hs))
          \<longrightarrow> n = sum_list (map (\<lambda>(d, g). length (get_all_candidates d g)) rounds)"
    by blast
  have step: "heal_rounds L (r # rounds) data lbls m fs
                = heal_rounds L rounds (data_after ?r) (labels_after ?r) ?m (files_after ?r)"
    using r by (simp add: Let_def)
  show ?case
  proof (intro exI[of _ "k + n"] conjI impI)
    show "length (fst (heal_rounds L (r # rounds) data lbls m fs)) = length data + (k + n)"
      using step k(1) n(1) by simp
    show "length (fst (snd (heal_rounds L (r # rounds) data lbls m fs))) = length lbls + (k + n)"
      using step k(2) n(2) by simp
    assume a: "\<forall>(d, g) \<in> set (r # rounds).
                 \<exists>fl hs. score_candidates g (get_all_candidates d g) = Inr (fl, hs)"
    then have "k = length (get_all_candidates d g)" using k(3) r by auto
    moreover have "n = sum_list (map (\<lambda>(d, g). length (get_all_candidates d g)) rounds)"
      using a n(3) by auto
    ultimately show "k + n = sum_list (map (\<lambda>(d, g). length (get_all_candidates d g)) (r # rounds))"
      using r by simp
  qed
qed

lemma capture_keeps_corpus:
  "self_training_data (fst (snd (capture_golden_if_missing a d x fs))) = self_training_data a"
  "self_training_labels (fst (snd (capture_golden_if_missing a d x fs))) = self_training_labels a"
  "self_model (fst (snd (capture_golden_if_missing a d x fs))) = self_model a"
  by (simp_all add: capture_golden_if_missing_def Let_def split: option.splits sum.splits)

lemma updated_locator_lengths:
  assumes "length data = length lbls"
  shows "length (fst (snd (get_updated_locator L d x golden data lbls m fs)))
           = length (fst (snd (snd (get_updated_locator L d x golden data lbls m fs))))"
proof -
  have "length (data_after (self_heal_selector L d g data lbls m fs))
          = length (labels_after (self_heal_selector L d g data lbls m fs))" for g
    using round_growth[of L d g data lbls m fs] assms by auto
  then show ?thesis
    using assms by (simp add: get_updated_locator_def Let_def split: option.splits)
qed

lemma locate_element_lengths:
  assumes "length (self_training_data a) = length (self_training_labels a)"
  shows "length (self_training_data (fst (snd (locate_element L a d x fs))))
           = length (self_training_labels (fst (snd (locate_element L a d x fs))))"
proof -
  obtain res a' fs' where c: "capture_golden_if_missing a d x fs = (res, a', fs')"
    by (cases "capture_golden_if_missing a d x fs")
  have a': "self_training_data a' = self_training_data a"
    "self_training_labels a' = self_training_labels a"
    using capture_keeps_corpus(1,2)[of a d x fs] c by simp_all
  then have inv: "length (self_training_data a') = length (self_training_labels a')"
    using assms by simp
  have U: "length aa = length aaa"
    if "get_updated_locator L d x gol (self_training_data a') (self_training_labels a')
          (self_model a') fs' = (r2, aa, aaa, b)" for gol r2 aa aaa b
    using updated_locator_lengths[OF inv, of L d x gol "self_model a'" fs'] that by simp
  show ?thesis
    using c inv U
    by (auto simp: locate_element_def Let_def split: sum.splits option.splits prod.splits)
qed

lemma agent_init_lengths:
  assumes "case training_file fs of None \<Rightarrow> True | Some (x, y) \<Rightarrow> length x = length y"
  shows "length (self_training_data (fst (agent_init d fs)))
           = length (self_training_labels (fst (agent_init d fs)))"
  using assms
  by (auto simp: agent_init_def load_training_data_def store_global_golden_data_def Let_def
      split: option.splits prod.splits if_splits)

lemma stale_scored:
  "get_all_candidates stale_page email_golden = [cand_search, cand_email, cand_mail]"
  "score_candidates email_golden (get_all_candidates stale_page email_golden)
     = Inr (login_features, [8, 23, 23])"
  by code_simp+

lemma capture_existing:
  assumes "self_global_data a (self_page_key a) = Some page"
    "page (generate_golden_identifier d x None) = Some g"
  shows "capture_golden_if_missing a d x fs = (Inr (generate_golden_identifier d x None), a, fs)"
  using assms by (simp add: capture_golden_if_missing_def Let_def)

lemma capture_keeps_entries:
  assumes "self_global_data a pk = Some pg" "pg k = Some v"
  shows "\<exists>pg'. self_global_data (fst (snd (capture_golden_if_missing a d x fs))) pk = Some pg'
           \<and> pg' k = Some v"
  using assms
  by (auto simp: capture_golden_if_missing_def Let_def split: option.splits sum.splits)

lemma capture_twice:
  "capture_golden_if_missing (fst (snd (capture_golden_if_missing a d x fs))) d x
     (snd (snd (capture_golden_if_missing a d x fs)))
   = capture_golden_if_missing a d x fs"
  by (auto simp: capture_golden_if_missing_def Let_def split: option.splits sum.splits)

lemma capture_only_at_identifier:
  assumes "self_global_data (fst (snd (capture_golden_if_missing a d x fs))) pk = Some pg'"
  shows "\<exists>pg. self_global_data a pk = Some pg
           \<and> (\<forall>k. k \<noteq> generate_golden_identifier d x None \<longrightarrow> pg' k = pg k)"
  using assms
  by (auto simp: capture_golden_if_missing_def Let_def split: option.splits sum.splits if_splits)

lemma capture_returns_identifier:
  assumes "fst (capture_golden_if_missing a d x fs) = Inr gid"
  shows "gid = generate_golden_identifier d x None"
  using assms
  by (auto simp: capture_golden_if_missing_def Let_def split: option.splits sum.splits if_splits)

lemma identifier_priority:
  "generate_golden_identifier d x None = page_key_of d @ ''_golden_'' @ sanitize_xpath x"
  "truthy (get_attribute el ''data-testid'') \<Longrightarrow>
     generate_golden_identifier d x (Some el)
       = page_key_of d @ ''_golden_'' @ the (get_attribute el ''data-testid'')"
  "\<not> truthy (get_attribute el ''data-testid'') \<Longrightarrow> truthy (get_attribute el ''id'') \<Longrightarrow>
     generate_golden_identifier d x (Some el)
       = page_key_of d @ ''_golden_'' @ the (get_attribute el ''id'')"
  "\<not> truthy (get_attribute el ''data-testid'') \<Longrightarrow> \<not> truthy (get_attribute el ''id'') \<Longrightarrow>
   truthy (get_attribute el ''name'') \<Longrightarrow>
     generate_golden_identifier d x (Some el)
       = page_key_of d @ ''_golden_'' @ the (get_attribute el ''name'')"
  "\<not> truthy (get_attribute el ''data-testid'') \<Longrightarrow> \<not> truthy (get_attribute el ''id'') \<Longrightarrow>
   \<not> truthy (get_attribute el ''name'') \<Longrightarrow> truthy (get_attribute el ''class'') \<Longrightarrow>
     generate_golden_identifier d x (Some el)
       = page_key_of d @ ''_golden_'' @ tag_name el @ ''_''
           @ replace (CHR '' '') ''_'' (strip (the (get_attribute el ''class'')))"
  "\<not> truthy (get_attribute el ''data-testid'') \<Longrightarrow> \<not> truthy (get_attribute el ''id'') \<Longrightarrow>
   \<not> truthy (get_attribute el ''name'') \<Longrightarrow> \<not> truthy (get_attribute el ''class'') \<Longrightarrow>
   strip (element_text el) \<noteq> [] \<Longrightarrow> length (strip (element_text el)) < 20 \<Longrightarrow>
     generate_golden_identifier d x (Some el)
       = page_key_of d @ ''_golden_'' @ tag_name el @ ''_''
           @ replace (CHR '' '') ''_'' (strip (element_text el))"
  "\<not> truthy (get_attribute el ''data-testid'') \<Longrightarrow> \<not> truthy (get_attribute el ''id'') \<Longrightarrow>
   \<not> truthy (get_attribute el ''name'') \<Longrightarrow> \<not> truthy (get_attribute el ''class'') \<Longrightarrow>
   strip (element_text el) = [] \<or> 20 \<le> length (strip (element_text el)) \<Longrightarrow>
     generate_golden_identifier d x (Some el)
       = page_key_of d @ ''_golden_'' @ sanitize_xpath x"
  by (auto simp: generate_golden_identifier_def py_or_def Let_def)

section \<open>The tag gate of the heuristic score\<close>

text \<open>
  Claim C3, as amended. The tags are compared after lower-casing both: whenever the
  lower-cased tag of the candidate differs from the lower-cased tag of the golden
  snapshot, \<open>compute_similarity\<close> returns exactly 0, whatever the other attributes are.
\<close>

theorem similarity_tag_gate:
  "lower (tag_name candidate) \<noteq> lower (g_tag golden) \<Longrightarrow>
     compute_similarity golden candidate = Inr 0"
  by (simp add: compute_similarity_def)

text \<open>
  C3, witness: a \<open>span\<close> that agrees with the golden \<open>div\<close> in every attribute, in its
  text and in its parent scores 0.
\<close>

theorem similarity_tag_gate_witness:
  "lower (tag_name (Element ''span'' (attributes example_div) '' Hello '' (Some example_body)))
     \<noteq> lower (g_tag example_div_golden)
   \<and> compute_similarity example_div_golden
        (Element ''span'' (attributes example_div) '' Hello '' (Some example_body)) = Inr 0"
proof -
  have h: "lower (tag_name (Element ''span'' (attributes example_div) '' Hello ''
             (Some example_body))) \<noteq> lower (g_tag example_div_golden)"
    by code_simp
  show ?thesis using h similarity_tag_gate [OF h] by simp
qed

text \<open>
  C3, counterexample to the claim as stated: the tags \<open>DIV\<close> and \<open>div\<close> differ, and the
  score is 33.
\<close>

theorem similarity_tag_gate_counterexample:
  "tag_name (Element ''DIV'' [] [] None) \<noteq> g_tag (bare_golden ''div'')
   \<and> compute_similarity (bare_golden ''div'') (Element ''DIV'' [] [] None) = Inr 33"
  by code_simp

section \<open>A candidate identical to its golden snapshot\<close>

text \<open>
  Claim C4, as amended. Let the candidate agree with the golden snapshot in every
  captured attribute: tag, id, name, data-testid, class, the stripped text, the stripped
  innerHTML, and the parent's tag, id and class. If moreover the stripped text and the
  stripped innerHTML are not empty and both the candidate and the golden have a parent,
  then \<open>compute_similarity\<close> returns 48 and \<open>extract_features\<close> returns the vector whose
  nine flags are 1 and whose feature f6 is 1.
\<close>

theorem identical_candidate_scores_48:
  assumes tag: "tag_name c = g_tag g"
    and ident: "get_attribute c ''id'' = g_id g" "get_attribute c ''name'' = g_name g"
      "get_attribute c ''data-testid'' = g_testid g" "get_attribute c ''class'' = g_class g"
    and tx: "g_text g = Some (strip (element_text c))" "strip (element_text c) \<noteq> []"
    and inner: "get_attribute c ''innerHTML'' = Some h" "g_innerHTML g = Some (strip h)"
      "strip h \<noteq> []"
    and par: "parent_of c = Some cp" "g_parent g = Some gp" "tag_name cp = p_tag gp"
      "get_attribute cp ''id'' = p_id gp" "get_attribute cp ''class'' = p_class gp"
  shows "compute_similarity g c = Inr 48
         \<and> extract_features g c = Inr [1, 1, 1, 1, 1, 1, 1, 1, 1, 1]"
proof -
  have ps: "parent_score g c = 10" using par by (simp add: parent_score_def)
  have pf: "parent_flags g c = [1, 1, 1]" using par by (simp add: parent_flags_def)
  have sim: "compute_similarity g c = Inr 48"
    using tag ident tx inner ps by (simp add: compute_similarity_def)
  have "h \<noteq> []" using inner(3) by (auto simp: strip_def)
  then have "extract_features g c = Inr [1, 1, 1, 1, 1, 1, 1, 1, 1, 1]"
    using ident tx inner pf sim sublist_strip[of h] by (simp add: extract_features_def)
  with sim show ?thesis by simp
qed

text \<open>
  C4, witness: the example \<open>div\<close> and the snapshot captured from it.
\<close>

theorem identical_candidate_scores_48_witness:
  "capture_element_attributes example_div = Inr example_div_golden
   \<and> compute_similarity example_div_golden example_div = Inr 48
   \<and> extract_features example_div_golden example_div = Inr [1, 1, 1, 1, 1, 1, 1, 1, 1, 1]"
proof -
  have cap: "capture_element_attributes example_div = Inr example_div_golden"
    by code_simp
  have "compute_similarity example_div_golden example_div = Inr 48
        \<and> extract_features example_div_golden example_div
            = Inr [1, 1, 1, 1, 1, 1, 1, 1, 1, 1]"
  proof (rule identical_candidate_scores_48
      [where h = "'' <b>Hello</b> ''" and cp = example_body
         and gp = "\<lparr>p_tag = ''body'', p_id = Some ''root'', p_class = Some ''page'',
                    p_name = None, p_testid = None\<rparr>"])
    show "tag_name example_div = g_tag example_div_golden" by code_simp
    show "get_attribute example_div ''id'' = g_id example_div_golden" by code_simp
    show "get_attribute example_div ''name'' = g_name example_div_golden" by code_simp
    show "get_attribute example_div ''data-testid'' = g_testid example_div_golden"
      by code_simp
    show "get_attribute example_div ''class'' = g_class example_div_golden" by code_simp
    show "g_text example_div_golden = Some (strip (element_text example_div))" by code_simp
    show "strip (element_text example_div) \<noteq> []" by code_simp
    show "get_attribute example_div ''innerHTML'' = Some '' <b>Hello</b> ''" by code_simp
    show "g_innerHTML example_div_golden = Some (strip '' <b>Hello</b> '')" by code_simp
    show "strip '' <b>Hello</b> '' \<noteq> []" by code_simp
    show "parent_of example_div = Some example_body" by code_simp
    show "g_parent example_div_golden
            = Some \<lparr>p_tag = ''body'', p_id = Some ''root'', p_class = Some ''page'',
                     p_name = None, p_testid = None\<rparr>"
      by code_simp
    show "tag_name example_body
            = p_tag \<lparr>p_tag = ''body'', p_id = Some ''root'', p_class = Some ''page'',
                      p_name = None, p_testid = None\<rparr>"
      by code_simp
    show "get_attribute example_body ''id''
            = p_id \<lparr>p_tag = ''body'', p_id = Some ''root'', p_class = Some ''page'',
                     p_name = None, p_testid = None\<rparr>"
      by code_simp
    show "get_attribute example_body ''class''
            = p_class \<lparr>p_tag = ''body'', p_id = Some ''root'', p_class = Some ''page'',
                        p_name = None, p_testid = None\<rparr>"
      by code_simp
  qed
  with cap show ?thesis by simp
qed

text \<open>
  C4, counterexample to the claim as stated: a \<open>div\<close> with an id, a name, a
  data-testid, a class, an innerHTML and a parent, but no visible text, compared with
  the snapshot captured from it, scores 45 and its text flag is 0; a button with all of
  these and a text scores 46 against its own snapshot, no innerHTML being captured for a
  button, and its innerHTML flag is 0.
\<close>

theorem identical_candidate_scores_48_counterexample:
  "capture_element_attributes image_div = Inr image_div_golden
   \<and> compute_similarity image_div_golden image_div = Inr 45
   \<and> extract_features image_div_golden image_div
       = Inr [1, 1, 1, 1, 0, 1, 45 / 48, 1, 1, 1]
   \<and> capture_element_attributes example_button = Inr example_button_golden
   \<and> compute_similarity example_button_golden example_button = Inr 46
   \<and> extract_features example_button_golden example_button
       = Inr [1, 1, 1, 1, 1, 0, 23 / 24, 1, 1, 1]"
  by code_simp

section \<open>Attributes absent on both sides\<close>

text \<open>
  Claim C9. Let the tag gate pass. For each of id, name, data-testid, class, parent id
  and parent class: when the golden snapshot and the candidate both lack the attribute,
  \<open>compute_similarity\<close> gives the score it gives for a golden that records some value
  \<open>v\<close> there (a mismatch, the candidate having none) plus the full weight of the
  attribute (10, 10, 8, 5, 5, 3), and \<open>extract_features\<close> sets the flag of the attribute
  to 1. Two elements of the same tag that lack id, name, data-testid and class score at
  least 33.
\<close>

theorem absent_attributes_match:
  assumes tag: "lower (tag_name c) = lower (g_tag g)"
  shows
    "(g_id g = None \<and> get_attribute c ''id'' = None \<longrightarrow>
        compute_similarity g c
          = map_sum id (\<lambda>s. s + 10) (compute_similarity (g\<lparr>g_id := Some v\<rparr>) c)
        \<and> (\<forall>fs. extract_features g c = Inr fs \<longrightarrow> fs ! 0 = 1))
     \<and> (g_name g = None \<and> get_attribute c ''name'' = None \<longrightarrow>
        compute_similarity g c
          = map_sum id (\<lambda>s. s + 10) (compute_similarity (g\<lparr>g_name := Some v\<rparr>) c)
        \<and> (\<forall>fs. extract_features g c = Inr fs \<longrightarrow> fs ! 1 = 1))
     \<and> (g_testid g = None \<and> get_attribute c ''data-testid'' = None \<longrightarrow>
        compute_similarity g c
          = map_sum id (\<lambda>s. s + 8) (compute_similarity (g\<lparr>g_testid := Some v\<rparr>) c)
        \<and> (\<forall>fs. extract_features g c = Inr fs \<longrightarrow> fs ! 2 = 1))
     \<and> (g_class g = None \<and> get_attribute c ''class'' = None \<longrightarrow>
        compute_similarity g c
          = map_sum id (\<lambda>s. s + 5) (compute_similarity (g\<lparr>g_class := Some v\<rparr>) c)
        \<and> (\<forall>fs. extract_features g c = Inr fs \<longrightarrow> fs ! 3 = 1))
     \<and> (\<forall>gp cp. g_parent g = Some gp \<and> parent_of c = Some cp
            \<and> p_id gp = None \<and> get_attribute cp ''id'' = None \<longrightarrow>
        compute_similarity g c
          = map_sum id (\<lambda>s. s + 5)
              (compute_similarity (g\<lparr>g_parent := Some (gp\<lparr>p_id := Some v\<rparr>)\<rparr>) c)
        \<and> (\<forall>fs. extract_features g c = Inr fs \<longrightarrow> fs ! 8 = 1))
     \<and> (\<forall>gp cp. g_parent g = Some gp \<and> parent_of c = Some cp
            \<and> p_class gp = None \<and> get_attribute cp ''class'' = None \<longrightarrow>
        compute_similarity g c
          = map_sum id (\<lambda>s. s + 3)
              (compute_similarity (g\<lparr>g_parent := Some (gp\<lparr>p_class := Some v\<rparr>)\<rparr>) c)
        \<and> (\<forall>fs. extract_features g c = Inr fs \<longrightarrow> fs ! 9 = 1))
     \<and> (g_id g = None \<and> get_attribute c ''id'' = None
          \<and> g_name g = None \<and> get_attribute c ''name'' = None
          \<and> g_testid g = None \<and> get_attribute c ''data-testid'' = None
          \<and> g_class g = None \<and> get_attribute c ''class'' = None \<longrightarrow>
        (\<forall>s. compute_similarity g c = Inr s \<longrightarrow> 33 \<le> s))"
proof (intro conjI impI allI; (elim conjE)?)
  show "compute_similarity g c
          = map_sum id (\<lambda>s. s + 10) (compute_similarity (g\<lparr>g_id := Some v\<rparr>) c)"
    if "g_id g = None" "get_attribute c ''id'' = None"
    using absent_id[OF tag that] .
  show "fs ! 0 = 1"
    if "g_id g = None" "get_attribute c ''id'' = None" "extract_features g c = Inr fs" for fs
    using features_shape(1)[OF that(3)] that(1,2) by simp
  show "compute_similarity g c
          = map_sum id (\<lambda>s. s + 10) (compute_similarity (g\<lparr>g_name := Some v\<rparr>) c)"
    if "g_name g = None" "get_attribute c ''name'' = None"
    using absent_name[OF tag that] .
  show "fs ! 1 = 1"
    if "g_name g = None" "get_attribute c ''name'' = None" "extract_features g c = Inr fs" for fs
    using features_shape(2)[OF that(3)] that(1,2) by simp
  show "compute_similarity g c
          = map_sum id (\<lambda>s. s + 8) (compute_similarity (g\<lparr>g_testid := Some v\<rparr>) c)"
    if "g_testid g = None" "get_attribute c ''data-testid'' = None"
    using absent_testid[OF tag that] .
  show "fs ! 2 = 1"
    if "g_testid g = None" "get_attribute c ''data-testid'' = None"
      "extract_features g c = Inr fs" for fs
    using features_shape(3)[OF that(3)] that(1,2) by simp
  show "compute_similarity g c
          = map_sum id (\<lambda>s. s + 5) (compute_similarity (g\<lparr>g_class := Some v\<rparr>) c)"
    if "g_class g = None" "get_attribute c ''class'' = None"
    using absent_class[OF tag that] .
  show "fs ! 3 = 1"
    if "g_class g = None" "get_attribute c ''class'' = None" "extract_features g c = Inr fs" for fs
    using features_shape(4)[OF that(3)] that(1,2) by simp
  show "compute_similarity g c
          = map_sum id (\<lambda>s. s + 5)
              (compute_similarity (g\<lparr>g_parent := Some (gp\<lparr>p_id := Some v\<rparr>)\<rparr>) c)"
    if "g_parent g = Some gp" "parent_of c = Some cp" "p_id gp = None"
      "get_attribute cp ''id'' = None" for gp cp
    using absent_parent_id[OF tag that] .
  show "fs ! 8 = 1"
    if "g_parent g = Some gp" "parent_of c = Some cp" "p_id gp = None"
      "get_attribute cp ''id'' = None" "extract_features g c = Inr fs" for gp cp fs
  proof -
    have "drop 7 fs ! 1 = 1"
      using features_shape(5)[OF that(5)] that(1-4) by (simp add: parent_flags_def)
    then show ?thesis using features_shape(6)[OF that(5)] by simp
  qed
  show "compute_similarity g c
          = map_sum id (\<lambda>s. s + 3)
              (compute_similarity (g\<lparr>g_parent := Some (gp\<lparr>p_class := Some v\<rparr>)\<rparr>) c)"
    if "g_parent g = Some gp" "parent_of c = Some cp" "p_class gp = None"
      "get_attribute cp ''class'' = None" for gp cp
    using absent_parent_class[OF tag that] .
  show "fs ! 9 = 1"
    if "g_parent g = Some gp" "parent_of c = Some cp" "p_class gp = None"
      "get_attribute cp ''class'' = None" "extract_features g c = Inr fs" for gp cp fs
  proof -
    have "drop 7 fs ! 2 = 1"
      using features_shape(5)[OF that(5)] that(1-4) by (simp add: parent_flags_def)
    then show ?thesis using features_shape(6)[OF that(5)] by simp
  qed
  show "33 \<le> s"
    if "g_id g = None" "get_attribute c ''id'' = None"
      "g_name g = None" "get_attribute c ''name'' = None"
      "g_testid g = None" "get_attribute c ''data-testid'' = None"
      "g_class g = None" "get_attribute c ''class'' = None"
      "compute_similarity g c = Inr s" for s
    using absent_score_33[OF tag that] .
qed

text \<open>
  C9, witness: an \<open>input\<close> without attributes inside a \<open>form\<close> without attributes, against
  the golden snapshot of the same shape. The score is 43, and 33 once the golden records
  an id.
\<close>

theorem absent_attributes_match_witness:
  "lower (tag_name bare_input) = lower (g_tag bare_input_golden)
   \<and> compute_similarity bare_input_golden bare_input
       = map_sum id (\<lambda>s. s + 10)
           (compute_similarity (bare_input_golden\<lparr>g_id := Some ''x''\<rparr>) bare_input)
   \<and> compute_similarity bare_input_golden bare_input
       = map_sum id (\<lambda>s. s + 10)
           (compute_similarity (bare_input_golden\<lparr>g_name := Some ''x''\<rparr>) bare_input)
   \<and> compute_similarity bare_input_golden bare_input
       = map_sum id (\<lambda>s. s + 8)
           (compute_similarity (bare_input_golden\<lparr>g_testid := Some ''x''\<rparr>) bare_input)
   \<and> compute_similarity bare_input_golden bare_input
       = map_sum id (\<lambda>s. s + 5)
           (compute_similarity (bare_input_golden\<lparr>g_class := Some ''x''\<rparr>) bare_input)
   \<and> compute_similarity bare_input_golden bare_input
       = map_sum id (\<lambda>s. s + 5)
           (compute_similarity
              (bare_input_golden\<lparr>g_parent := Some ((bare_parent ''form'')\<lparr>p_id := Some ''x''\<rparr>)\<rparr>)
              bare_input)
   \<and> compute_similarity bare_input_golden bare_input
       = map_sum id (\<lambda>s. s + 3)
           (compute_similarity
              (bare_input_golden\<lparr>g_parent := Some ((bare_parent ''form'')\<lparr>p_class := Some ''x''\<rparr>)\<rparr>)
              bare_input)
   \<and> compute_similarity bare_input_golden bare_input = Inr 43
   \<and> compute_similarity (bare_input_golden\<lparr>g_id := Some ''x''\<rparr>) bare_input = Inr 33
   \<and> extract_features bare_input_golden bare_input = Inr [1, 1, 1, 1, 0, 0, 43 / 48, 1, 1, 1]"
proof -
  have tag: "lower (tag_name bare_input) = lower (g_tag bare_input_golden)"
    by code_simp
  note T = absent_attributes_match [OF tag, of "''x''"]
  have a: "g_id bare_input_golden = None \<and> get_attribute bare_input ''id'' = None"
    "g_name bare_input_golden = None \<and> get_attribute bare_input ''name'' = None"
    "g_testid bare_input_golden = None \<and> get_attribute bare_input ''data-testid'' = None"
    "g_class bare_input_golden = None \<and> get_attribute bare_input ''class'' = None"
    by code_simp+
  have p: "g_parent bare_input_golden = Some (bare_parent ''form'')
           \<and> parent_of bare_input = Some (Element ''form'' [] [] None)
           \<and> p_id (bare_parent ''form'') = None
           \<and> get_attribute (Element ''form'' [] [] None) ''id'' = None"
    "g_parent bare_input_golden = Some (bare_parent ''form'')
           \<and> parent_of bare_input = Some (Element ''form'' [] [] None)
           \<and> p_class (bare_parent ''form'') = None
           \<and> get_attribute (Element ''form'' [] [] None) ''class'' = None"
    by code_simp+
  have e1: "compute_similarity bare_input_golden bare_input
       = map_sum id (\<lambda>s. s + 10)
           (compute_similarity (bare_input_golden\<lparr>g_id := Some ''x''\<rparr>) bare_input)"
    using T a(1) by blast
  have e2: "compute_similarity bare_input_golden bare_input
       = map_sum id (\<lambda>s. s + 10)
           (compute_similarity (bare_input_golden\<lparr>g_name := Some ''x''\<rparr>) bare_input)"
    using T a(2) by blast
  have e3: "compute_similarity bare_input_golden bare_input
       = map_sum id (\<lambda>s. s + 8)
           (compute_similarity (bare_input_golden\<lparr>g_testid := Some ''x''\<rparr>) bare_input)"
    using T a(3) by blast
  have e4: "compute_similarity bare_input_golden bare_input
       = map_sum id (\<lambda>s. s + 5)
           (compute_similarity (bare_input_golden\<lparr>g_class := Some ''x''\<rparr>) bare_input)"
    using T a(4) by blast
  have e5: "compute_similarity bare_input_golden bare_input
       = map_sum id (\<lambda>s. s + 5)
           (compute_similarity
              (bare_input_golden\<lparr>g_parent := Some ((bare_parent ''form'')\<lparr>p_id := Some ''x''\<rparr>)\<rparr>)
              bare_input)"
    using T p(1) by blast
  have e6: "compute_similarity bare_input_golden bare_input
       = map_sum id (\<lambda>s. s + 3)
           (compute_similarity
              (bare_input_golden\<lparr>g_parent := Some ((bare_parent ''form'')\<lparr>p_class := Some ''x''\<rparr>)\<rparr>)
              bare_input)"
    using T p(2) by blast
  have v: "compute_similarity bare_input_golden bare_input = Inr 43"
    "compute_similarity (bare_input_golden\<lparr>g_id := Some ''x''\<rparr>) bare_input = Inr 33"
    "extract_features bare_input_golden bare_input = Inr [1, 1, 1, 1, 0, 0, 43 / 48, 1, 1, 1]"
    by code_simp+
  show ?thesis using tag e1 e2 e3 e4 e5 e6 v by (intro conjI)
qed

section \<open>Labels and the first maximum\<close>

text \<open>
  Claim C10. In a healing round with at least one candidate whose scoring completes,
  there is one position \<open>b\<close>, the first position that attains the greatest heuristic
  score: the labels appended for the round are 1 at \<open>b\<close> and 0 at every other position.
  When a model is in force and returns one probability per candidate, the winner is the
  candidate at the first position that attains the greatest probability.
\<close>

theorem first_maximum_wins:
  assumes cands: "get_all_candidates d g \<noteq> []"
    and scored: "score_candidates g (get_all_candidates d g) = Inr (fl, hs)"
  shows "\<exists>b. is_first_max hs b
           \<and> length hs = length (get_all_candidates d g)
           \<and> (\<forall>i < length hs. compute_similarity g (get_all_candidates d g ! i) = Inr (hs ! i))
           \<and> labels_after (self_heal_selector L d g data lbls m fs)
               = lbls @ map (\<lambda>i. if i = b then 1 else 0) [0..<length (get_all_candidates d g)]
           \<and> (\<forall>mm. model_after (self_heal_selector L d g data lbls m fs) = Some mm
                  \<and> length (predict_proba L mm fl) = length (get_all_candidates d g) \<longrightarrow>
                (\<exists>j. is_first_max (predict_proba L mm fl) j
                   \<and> chosen (self_heal_selector L d g data lbls m fs)
                       = Inr (get_all_candidates d g ! j)))"
proof -
  obtain b where b: "argmax hs = Inr b" using scored_argmax[OF cands scored] by blast
  have len: "length hs = length (get_all_candidates d g)"
    using score_candidates_length[OF scored] by simp
  have "is_first_max hs b" using b by (rule argmax_is_first_max)
  moreover have "\<forall>i < length hs. compute_similarity g (get_all_candidates d g ! i) = Inr (hs ! i)"
    using score_candidates_nth[OF scored] len by simp
  moreover have "labels_after (self_heal_selector L d g data lbls m fs)
       = lbls @ map (\<lambda>i. if i = b then 1 else 0) [0..<length (get_all_candidates d g)]"
    using scored_round(2)[OF cands scored b] by (simp add: make_labels_def)
  moreover have "\<exists>j. is_first_max (predict_proba L mm fl) j
                   \<and> chosen (self_heal_selector L d g data lbls m fs)
                       = Inr (get_all_candidates d g ! j)"
    if "model_after (self_heal_selector L d g data lbls m fs) = Some mm"
      "length (predict_proba L mm fl) = length (get_all_candidates d g)" for mm
    using choose_with_model[OF that(2) cands, of b]
      ranked_with_model[OF cands scored b that(1)]
    by simp
  ultimately show ?thesis using len by blast
qed

text \<open>
  C10, witness: three candidates with heuristic scores 8, 23, 23 and probabilities
  1/6, 23/48, 23/48; the label 1 and the choice both fall on the second candidate, the
  earlier of the two that tie.
\<close>

theorem first_maximum_wins_witness:
  "get_all_candidates login_page email_golden = [cand_search, cand_email, cand_mail]
   \<and> score_candidates email_golden (get_all_candidates login_page email_golden)
       = Inr (login_features, [8, 23, 23])
   \<and> labels_after (self_heal_selector imitating_learner login_page email_golden [] []
        (Some ([], [])) no_files) = [0, 1, 0]
   \<and> predict_proba imitating_learner ([], []) login_features = [1 / 6, 23 / 48, 23 / 48]
   \<and> chosen (self_heal_selector imitating_learner login_page email_golden [] []
        (Some ([], [])) no_files) = Inr cand_email"
proof -
  let ?r = "self_heal_selector imitating_learner login_page email_golden [] []
              (Some ([], [])) no_files"
  have cs: "get_all_candidates login_page email_golden = [cand_search, cand_email, cand_mail]"
    by code_simp
  have cands: "get_all_candidates login_page email_golden \<noteq> []"
    using cs by simp
  have scored: "score_candidates email_golden (get_all_candidates login_page email_golden)
                  = Inr (login_features, [8, 23, 23])"
    by code_simp
  have ps: "predict_proba imitating_learner ([], []) login_features = [1 / 6, 23 / 48, 23 / 48]"
    by code_simp
  have ma: "model_after ?r = Some ([], [])" by code_simp
  have fm_h: "is_first_max [8, 23, 23 :: nat] 1"
    by (simp add: is_first_max_def nth_Cons' less_Suc_eq numeral_3_eq_3)
  have fm_p: "is_first_max [1 / 6, 23 / 48, 23 / 48 :: rat] 1"
    by (simp add: is_first_max_def nth_Cons' less_Suc_eq numeral_3_eq_3)
  from first_maximum_wins [OF cands scored, of imitating_learner "[]" "[]" "Some ([], [])" no_files]
  obtain b where b: "is_first_max [8, 23, 23 :: nat] b"
    and lab: "labels_after ?r = [] @ map (\<lambda>i. if i = b then 1 else 0)
                [0..<length (get_all_candidates login_page email_golden)]"
    and md: "\<forall>mm. model_after ?r = Some mm
                  \<and> length (predict_proba imitating_learner mm login_features)
                      = length (get_all_candidates login_page email_golden) \<longrightarrow>
                (\<exists>j. is_first_max (predict_proba imitating_learner mm login_features) j
                   \<and> chosen ?r = Inr (get_all_candidates login_page email_golden ! j))"
    by blast
  have "b = 1" using b fm_h by (rule is_first_max_unique)
  then have l: "labels_after ?r = [0, 1, 0]"
    using lab cs by (simp add: upt_rec)
  from md ma ps cs obtain j where j: "is_first_max [1 / 6, 23 / 48, 23 / 48 :: rat] j"
    and ch: "chosen ?r = Inr ([cand_search, cand_email, cand_mail] ! j)"
    by auto
  have "j = 1" using j fm_p by (rule is_first_max_unique)
  then have c: "chosen ?r = Inr cand_email" using ch by simp
  show ?thesis using cs scored l ps c by (intro conjI)
qed

section \<open>Which ranking decides a round\<close>




section \<open>The verification gate\<close>

text \<open>
  Claim C2. Whenever the selector synthesized for the chosen candidate does not resolve
  on the live page, the round ends in \<open>HealingVerificationFailed\<close>, and so does
  \<open>get_updated_locator\<close>; no other selector is tried. A round that returns a selector
  returns the one synthesized for its chosen candidate, and that selector resolves.
\<close>

theorem unverified_selector_is_fatal:
  "(chosen (self_heal_selector L d g data lbls m fs) = Inr c
      \<and> find_element d (generate_selector c) = None \<longrightarrow>
        outcome (self_heal_selector L d g data lbls m fs) = Inl HealingVerificationFailed
        \<and> (find_element d x = None \<longrightarrow>
             fst (get_updated_locator L d x (Some g) data lbls m fs)
               = Inl HealingVerificationFailed))
   \<and> (\<forall>sel c'. outcome (self_heal_selector L d g data lbls m fs) = Inr (sel, c') \<longrightarrow>
          chosen (self_heal_selector L d g data lbls m fs) = Inr c'
          \<and> sel = generate_selector c' \<and> find_element d sel \<noteq> None)"
proof -
  let ?r = "self_heal_selector L d g data lbls m fs"
  note O = outcome_from_chosen[of L d g data lbls m fs]
  have a: "outcome ?r = Inl HealingVerificationFailed"
    if "chosen ?r = Inr c" "find_element d (generate_selector c) = None"
    using O that by (simp add: verify_def)
  have b: "fst (get_updated_locator L d x (Some g) data lbls m fs) = Inl HealingVerificationFailed"
    if "chosen ?r = Inr c" "find_element d (generate_selector c) = None" "find_element d x = None"
    using a[OF that(1,2)] that(3) by (simp add: get_updated_locator_def Let_def)
  have c: "chosen ?r = Inr c' \<and> sel = generate_selector c' \<and> find_element d sel \<noteq> None"
    if "outcome ?r = Inr (sel, c')" for sel c'
    using O that by (auto simp: verify_def Let_def split: sum.splits option.splits)
  show ?thesis using a b c by blast
qed

text \<open>
  C2, witness: on the stale page the id selector of the chosen candidate does not
  resolve while the bare tag selector would; the round fails. On the login page the
  selector resolves and is returned.
\<close>

theorem unverified_selector_is_fatal_witness:
  "chosen (self_heal_selector imitating_learner stale_page email_golden [] [] None no_files)
     = Inr cand_email
   \<and> find_element stale_page (generate_selector cand_email) = None
   \<and> find_element stale_page ''//input'' = Some cand_search
   \<and> find_element stale_page broken_xpath = None
   \<and> outcome (self_heal_selector imitating_learner stale_page email_golden [] [] None no_files)
       = Inl HealingVerificationFailed
   \<and> fst (get_updated_locator imitating_learner stale_page broken_xpath (Some email_golden)
            [] [] None no_files) = Inl HealingVerificationFailed
   \<and> outcome (self_heal_selector imitating_learner login_page email_golden [] [] None no_files)
       = Inr (generate_selector cand_email, cand_email)
   \<and> find_element login_page (generate_selector cand_email) \<noteq> None"
proof -
  let ?s = "self_heal_selector imitating_learner stale_page email_golden [] [] None no_files"
  let ?l = "self_heal_selector imitating_learner login_page email_golden [] [] None no_files"
  have h1: "chosen ?s = Inr cand_email" by code_simp
  have h2: "find_element stale_page (generate_selector cand_email) = None" by code_simp
  have h3: "find_element stale_page ''//input'' = Some cand_search" by code_simp
  have h4: "find_element stale_page broken_xpath = None" by code_simp
  have h5: "outcome ?l = Inr (generate_selector cand_email, cand_email)" by code_simp
  note T = unverified_selector_is_fatal
    [of imitating_learner stale_page email_golden "[]" "[]" None no_files cand_email broken_xpath]
  note U = unverified_selector_is_fatal
    [of imitating_learner login_page email_golden "[]" "[]" None no_files]
  have a: "outcome ?s = Inl HealingVerificationFailed" using T h1 h2 by blast
  have b: "fst (get_updated_locator imitating_learner stale_page broken_xpath (Some email_golden)
            [] [] None no_files) = Inl HealingVerificationFailed"
    using T h1 h2 h4 by blast
  have c: "find_element login_page (generate_selector cand_email) \<noteq> None"
    using U h5 by blast
  show ?thesis using h1 h2 h3 h4 a b h5 c by (intro conjI)
qed

section \<open>When the corpus and the model are written\<close>




section \<open>The length of the training corpus\<close>

text \<open>
  Claim C5. Over any sequence of healing rounds on a corpus whose two lists start with
  equal length, the lists have equal length after the sequence, whether the rounds
  return or raise; if the scoring of every round completes, both lists have grown by
  exactly the sum of the sizes of the rounds' candidate sets. The agent keeps the
  equality: \<open>locate_element\<close> preserves it, and \<open>agent_init\<close> establishes it from a
  training file that is missing or holds two lists of equal length.
\<close>

theorem corpus_lengths:
  "(length data = length lbls \<longrightarrow>
      length (fst (heal_rounds L rounds data lbls m fs))
        = length (fst (snd (heal_rounds L rounds data lbls m fs))))
   \<and> ((\<forall>(d, g) \<in> set rounds.
          \<exists>fl hs. score_candidates g (get_all_candidates d g) = Inr (fl, hs)) \<longrightarrow>
        length (fst (heal_rounds L rounds data lbls m fs))
          = length data + sum_list (map (\<lambda>(d, g). length (get_all_candidates d g)) rounds)
        \<and> length (fst (snd (heal_rounds L rounds data lbls m fs)))
          = length lbls + sum_list (map (\<lambda>(d, g). length (get_all_candidates d g)) rounds))
   \<and> (length (self_training_data a) = length (self_training_labels a) \<longrightarrow>
        length (self_training_data (fst (snd (locate_element L a d x fs))))
          = length (self_training_labels (fst (snd (locate_element L a d x fs)))))
   \<and> ((case training_file fs of None \<Rightarrow> True | Some (x, y) \<Rightarrow> length x = length y) \<longrightarrow>
        length (self_training_data (fst (agent_init d fs)))
          = length (self_training_labels (fst (agent_init d fs))))"
proof -
  from heal_rounds_growth[of L rounds data lbls m fs] obtain n where
    n: "length (fst (heal_rounds L rounds data lbls m fs)) = length data + n"
       "length (fst (snd (heal_rounds L rounds data lbls m fs))) = length lbls + n"
       "(\<forall>(d, g) \<in> set rounds.
              \<exists>fl hs. score_candidates g (get_all_candidates d g) = Inr (fl, hs))
          \<longrightarrow> n = sum_list (map (\<lambda>(d, g). length (get_all_candidates d g)) rounds)"
    by blast
  have c1: "length (fst (heal_rounds L rounds data lbls m fs))
        = length (fst (snd (heal_rounds L rounds data lbls m fs)))"
    if "length data = length lbls"
    using n(1,2) that by simp
  have c2: "length (fst (heal_rounds L rounds data lbls m fs))
          = length data + sum_list (map (\<lambda>(d, g). length (get_all_candidates d g)) rounds)
        \<and> length (fst (snd (heal_rounds L rounds data lbls m fs)))
          = length lbls + sum_list (map (\<lambda>(d, g). length (get_all_candidates d g)) rounds)"
    if "\<forall>(d, g) \<in> set rounds.
          \<exists>fl hs. score_candidates g (get_all_candidates d g) = Inr (fl, hs)"
    using n that by simp
  show ?thesis
    using c1 c2 locate_element_lengths[of a L d x fs] agent_init_lengths[of fs d]
    by blast
qed

text \<open>
  C5, witness: two rounds over three candidates each, the second one failing its
  verification, take the empty corpus to length 6; one \<open>locate_element\<close> that heals
  takes the agent's corpus to length 3.
\<close>

theorem corpus_lengths_witness:
  "length (fst (heal_rounds imitating_learner
             [(login_page, email_golden), (stale_page, email_golden)] [] [] None no_files)) = 6
   \<and> length (fst (snd (heal_rounds imitating_learner
             [(login_page, email_golden), (stale_page, email_golden)] [] [] None no_files))) = 6
   \<and> self_training_labels
        (fst (snd (locate_element imitating_learner login_agent login_page broken_xpath
                     no_files))) = [0, 1, 0]
   \<and> length (self_training_data
        (fst (snd (locate_element imitating_learner login_agent login_page broken_xpath
                     no_files)))) = 3
   \<and> length (self_training_data
        (fst (agent_init login_page (no_files :: (rat list list \<times> nat list) files))))
       = length (self_training_labels
        (fst (agent_init login_page (no_files :: (rat list list \<times> nat list) files))))"
proof -
  let ?rounds = "[(login_page, email_golden), (stale_page, email_golden)]"
  let ?h = "heal_rounds imitating_learner ?rounds [] [] None no_files"
  let ?a = "fst (snd (locate_element imitating_learner login_agent login_page broken_xpath
                        no_files))"
  note T = corpus_lengths
    [of "[]" "[]" imitating_learner ?rounds None no_files login_agent login_page broken_xpath]
  have scored: "\<forall>(d, g) \<in> set ?rounds.
                  \<exists>fl hs. score_candidates g (get_all_candidates d g) = Inr (fl, hs)"
    using login_scored(2) stale_scored(2) by simp
  have sizes: "sum_list (map (\<lambda>(d, g). length (get_all_candidates d g)) ?rounds) = 6"
    using login_scored(1) stale_scored(1) by simp
  have h: "length (fst ?h) = 6 \<and> length (fst (snd ?h)) = 6"
    using T scored sizes by simp
  have inv: "length (self_training_data login_agent) = length (self_training_labels login_agent)"
    by code_simp
  have l: "self_training_labels ?a = [0, 1, 0]" by code_simp
  have "length (self_training_data ?a) = length (self_training_labels ?a)"
    using T inv by blast
  then have a: "length (self_training_data ?a) = 3" using l by simp
  have f: "case training_file (no_files :: (rat list list \<times> nat list) files) of
             None \<Rightarrow> True | Some (x, y) \<Rightarrow> length x = length y"
    by (simp add: no_files_def)
  have i: "length (self_training_data
        (fst (agent_init login_page (no_files :: (rat list list \<times> nat list) files))))
       = length (self_training_labels
        (fst (agent_init login_page (no_files :: (rat list list \<times> nat list) files))))"
    using T f by blast
  show ?thesis using h l a i by (intro conjI) simp_all
qed

section \<open>Capturing a golden reference\<close>

text \<open>
  Claim C6. If the golden table already holds an entry under the derived identifier,
  \<open>capture_golden_if_missing\<close> returns that identifier and leaves the agent and the
  files as they are. Whatever the page shows, every entry of the table before a capture
  is in the table after it with the same snapshot, so no entry is ever overwritten; and
  a second capture of the same locator on the same page changes nothing and returns
  what the first returned.
\<close>

theorem capture_is_idempotent:
  "(\<forall>page g. self_global_data a (self_page_key a) = Some page
        \<and> page (generate_golden_identifier d x None) = Some g \<longrightarrow>
      capture_golden_if_missing a d x fs = (Inr (generate_golden_identifier d x None), a, fs))
   \<and> (\<forall>pk pg k v. self_global_data a pk = Some pg \<and> pg k = Some v \<longrightarrow>
        (\<exists>pg'. self_global_data (fst (snd (capture_golden_if_missing a d x fs))) pk = Some pg'
           \<and> pg' k = Some v))
   \<and> capture_golden_if_missing (fst (snd (capture_golden_if_missing a d x fs))) d x
        (snd (snd (capture_golden_if_missing a d x fs)))
      = capture_golden_if_missing a d x fs"
  using capture_existing[of a _ d x _ fs] capture_keeps_entries[of a _ _ _ _ d x fs]
    capture_twice[of a d x fs]
  by blast

text \<open>
  C6, witness: the locator of a stored golden now resolves to another element, and the
  capture leaves agent, files and stored snapshot as they were; a first capture on a
  fresh agent stores the button's snapshot, and the second capture repeats its result.
\<close>

theorem capture_is_idempotent_witness:
  "capture_golden_if_missing login_agent moved_page broken_xpath no_files
     = (Inr login_golden_id, login_agent, no_files)
   \<and> find_element moved_page broken_xpath = Some cand_mail
   \<and> the (self_global_data
          (fst (snd (capture_golden_if_missing login_agent moved_page broken_xpath no_files)))
          ''Login_Page'') login_golden_id = Some email_golden
   \<and> the (self_global_data
          (fst (snd (capture_golden_if_missing fresh_agent button_page ''//button'' fresh_files)))
          ''Login_Page'') ''Login_Page_golden___button'' = Some example_button_golden
   \<and> capture_golden_if_missing
        (fst (snd (capture_golden_if_missing fresh_agent button_page ''//button'' fresh_files)))
        button_page ''//button''
        (snd (snd (capture_golden_if_missing fresh_agent button_page ''//button'' fresh_files)))
      = capture_golden_if_missing fresh_agent button_page ''//button'' fresh_files"
proof -
  note T = capture_is_idempotent [of login_agent moved_page broken_xpath no_files]
  note U = capture_is_idempotent [of fresh_agent button_page "''//button''" fresh_files]
  have gid: "generate_golden_identifier moved_page broken_xpath None = login_golden_id"
    by code_simp
  have pg: "self_global_data login_agent (self_page_key login_agent)
              = Some [login_golden_id \<mapsto> email_golden]"
    by (simp add: login_agent_def)
  have pg': "self_global_data login_agent ''Login_Page''
              = Some [login_golden_id \<mapsto> email_golden]"
    by (simp add: login_agent_def)
  have en: "[login_golden_id \<mapsto> email_golden]
              (generate_golden_identifier moved_page broken_xpath None) = Some email_golden"
    using gid by simp
  have en': "[login_golden_id \<mapsto> email_golden] login_golden_id = Some email_golden"
    by simp
  have a: "capture_golden_if_missing login_agent moved_page broken_xpath no_files
             = (Inr login_golden_id, login_agent, no_files)"
    using T pg en gid by metis
  have f: "find_element moved_page broken_xpath = Some cand_mail" by code_simp
  from T pg' en' obtain pg2 where
    "self_global_data
       (fst (snd (capture_golden_if_missing login_agent moved_page broken_xpath no_files)))
       ''Login_Page'' = Some pg2" "pg2 login_golden_id = Some email_golden"
    by blast
  then have b: "the (self_global_data
          (fst (snd (capture_golden_if_missing login_agent moved_page broken_xpath no_files)))
          ''Login_Page'') login_golden_id = Some email_golden"
    by simp
  have c: "the (self_global_data
          (fst (snd (capture_golden_if_missing fresh_agent button_page ''//button'' fresh_files)))
          ''Login_Page'') ''Login_Page_golden___button'' = Some example_button_golden"
    by code_simp
  have e: "capture_golden_if_missing
        (fst (snd (capture_golden_if_missing fresh_agent button_page ''//button'' fresh_files)))
        button_page ''//button''
        (snd (snd (capture_golden_if_missing fresh_agent button_page ''//button'' fresh_files)))
      = capture_golden_if_missing fresh_agent button_page ''//button'' fresh_files"
    using U by blast
  show ?thesis using a f b c e by (intro conjI)
qed

section \<open>How the golden identifier is derived\<close>

text \<open>
  Claim C7, as amended. The identifier returned by the agent's capture is the normalized
  page title, \<open>_golden_\<close>, and the sanitized original locator, whatever attributes the
  element has, and a capture changes the table at that identifier only: the agent calls
  \<open>generate_golden_identifier\<close> without an element. Handed an element,
  \<open>generate_golden_identifier\<close> derives the identifier from the normalized page title
  and, in priority order, the data-testid, else the id, else the name, else tag plus
  class, else tag plus a text shorter than 20 characters, else the sanitized locator.
\<close>

theorem golden_identifier_derivation:
  "(\<forall>gid. fst (capture_golden_if_missing a d x fs) = Inr gid \<longrightarrow>
       gid = page_key_of d @ ''_golden_'' @ sanitize_xpath x)
   \<and> (\<forall>pk pg'. self_global_data (fst (snd (capture_golden_if_missing a d x fs))) pk = Some pg'
         \<longrightarrow> (\<exists>pg. self_global_data a pk = Some pg
                 \<and> (\<forall>k. k \<noteq> page_key_of d @ ''_golden_'' @ sanitize_xpath x
                        \<longrightarrow> pg' k = pg k)))
   \<and> generate_golden_identifier d x None = page_key_of d @ ''_golden_'' @ sanitize_xpath x
   \<and> (truthy (get_attribute el ''data-testid'') \<longrightarrow>
        generate_golden_identifier d x (Some el)
          = page_key_of d @ ''_golden_'' @ the (get_attribute el ''data-testid''))
   \<and> (\<not> truthy (get_attribute el ''data-testid'') \<and> truthy (get_attribute el ''id'') \<longrightarrow>
        generate_golden_identifier d x (Some el)
          = page_key_of d @ ''_golden_'' @ the (get_attribute el ''id''))
   \<and> (\<not> truthy (get_attribute el ''data-testid'') \<and> \<not> truthy (get_attribute el ''id'')
        \<and> truthy (get_attribute el ''name'') \<longrightarrow>
        generate_golden_identifier d x (Some el)
          = page_key_of d @ ''_golden_'' @ the (get_attribute el ''name''))
   \<and> (\<not> truthy (get_attribute el ''data-testid'') \<and> \<not> truthy (get_attribute el ''id'')
        \<and> \<not> truthy (get_attribute el ''name'') \<and> truthy (get_attribute el ''class'') \<longrightarrow>
        generate_golden_identifier d x (Some el)
          = page_key_of d @ ''_golden_'' @ tag_name el @ ''_''
              @ replace (CHR '' '') ''_'' (strip (the (get_attribute el ''class''))))
   \<and> (\<not> truthy (get_attribute el ''data-testid'') \<and> \<not> truthy (get_attribute el ''id'')
        \<and> \<not> truthy (get_attribute el ''name'') \<and> \<not> truthy (get_attribute el ''class'')
        \<and> strip (element_text el) \<noteq> [] \<and> length (strip (element_text el)) < 20 \<longrightarrow>
        generate_golden_identifier d x (Some el)
          = page_key_of d @ ''_golden_'' @ tag_name el @ ''_''
              @ replace (CHR '' '') ''_'' (strip (element_text el)))
   \<and> (\<not> truthy (get_attribute el ''data-testid'') \<and> \<not> truthy (get_attribute el ''id'')
        \<and> \<not> truthy (get_attribute el ''name'') \<and> \<not> truthy (get_attribute el ''class'')
        \<and> (strip (element_text el) = [] \<or> 20 \<le> length (strip (element_text el))) \<longrightarrow>
        generate_golden_identifier d x (Some el)
          = page_key_of d @ ''_golden_'' @ sanitize_xpath x)"
proof -
  note P = identifier_priority
  have c1: "\<forall>gid. fst (capture_golden_if_missing a d x fs) = Inr gid \<longrightarrow>
       gid = page_key_of d @ ''_golden_'' @ sanitize_xpath x"
    using capture_returns_identifier[of a d x fs] P(1)[of d x] by simp
  have c2: "\<forall>pk pg'. self_global_data (fst (snd (capture_golden_if_missing a d x fs))) pk = Some pg'
         \<longrightarrow> (\<exists>pg. self_global_data a pk = Some pg
                 \<and> (\<forall>k. k \<noteq> page_key_of d @ ''_golden_'' @ sanitize_xpath x
                        \<longrightarrow> pg' k = pg k))"
    using capture_only_at_identifier[of a d x fs] P(1)[of d x] by simp
  show ?thesis
  proof (intro conjI)
    show "\<forall>gid. fst (capture_golden_if_missing a d x fs) = Inr gid \<longrightarrow>
       gid = page_key_of d @ ''_golden_'' @ sanitize_xpath x" by (rule c1)
    show "\<forall>pk pg'. self_global_data (fst (snd (capture_golden_if_missing a d x fs))) pk = Some pg'
         \<longrightarrow> (\<exists>pg. self_global_data a pk = Some pg
                 \<and> (\<forall>k. k \<noteq> page_key_of d @ ''_golden_'' @ sanitize_xpath x
                        \<longrightarrow> pg' k = pg k))" by (rule c2)
  qed (simp_all add: P)
qed

text \<open>
  C7, witness: the capture of \<open>//button\<close> on the page titled \<open>Login Page\<close>, and one
  element for each rule of the priority order.
\<close>

theorem golden_identifier_derivation_witness:
  "fst (capture_golden_if_missing fresh_agent button_page ''//button'' fresh_files)
     = Inr ''Login_Page_golden___button''
   \<and> ''Login_Page_golden___button''
       = page_key_of button_page @ ''_golden_'' @ sanitize_xpath ''//button''
   \<and> generate_golden_identifier button_page ''//button'' (Some example_button)
       = ''Login_Page_golden_go-btn''
   \<and> generate_golden_identifier button_page ''//button'' (Some cand_email)
       = ''Login_Page_golden_email-v2''
   \<and> generate_golden_identifier button_page ''//button'' (Some cand_mail)
       = ''Login_Page_golden_email''
   \<and> generate_golden_identifier button_page ''//button'' (Some link_class)
       = ''Login_Page_golden_a_nav_link''
   \<and> generate_golden_identifier button_page ''//button'' (Some link_text)
       = ''Login_Page_golden_a_Log_out''
   \<and> generate_golden_identifier button_page ''//button'' (Some link_bare)
       = ''Login_Page_golden___button''"
proof -
  note T = golden_identifier_derivation [of fresh_agent button_page "''//button''" fresh_files]
  have h: "fst (capture_golden_if_missing fresh_agent button_page ''//button'' fresh_files)
             = Inr ''Login_Page_golden___button''"
    by code_simp
  have c: "''Login_Page_golden___button''
             = page_key_of button_page @ ''_golden_'' @ sanitize_xpath ''//button''"
    using T[of example_button] h by blast
  have h1: "truthy (get_attribute example_button ''data-testid'')" by code_simp
  have v1: "page_key_of button_page @ ''_golden_''
              @ the (get_attribute example_button ''data-testid'') = ''Login_Page_golden_go-btn''"
    by code_simp
  have e1: "generate_golden_identifier button_page ''//button'' (Some example_button)
              = ''Login_Page_golden_go-btn''"
    using T[of example_button] h1 v1 by metis
  have h2: "\<not> truthy (get_attribute cand_email ''data-testid'')
            \<and> truthy (get_attribute cand_email ''id'')"
    by code_simp
  have v2: "page_key_of button_page @ ''_golden_'' @ the (get_attribute cand_email ''id'')
              = ''Login_Page_golden_email-v2''"
    by code_simp
  have e2: "generate_golden_identifier button_page ''//button'' (Some cand_email)
              = ''Login_Page_golden_email-v2''"
    using T[of cand_email] h2 v2 by metis
  have h3: "\<not> truthy (get_attribute cand_mail ''data-testid'')
            \<and> \<not> truthy (get_attribute cand_mail ''id'')
            \<and> truthy (get_attribute cand_mail ''name'')"
    by code_simp
  have v3: "page_key_of button_page @ ''_golden_'' @ the (get_attribute cand_mail ''name'')
              = ''Login_Page_golden_email''"
    by code_simp
  have e3: "generate_golden_identifier button_page ''//button'' (Some cand_mail)
              = ''Login_Page_golden_email''"
    using T[of cand_mail] h3 v3 by metis
  have h4: "\<not> truthy (get_attribute link_class ''data-testid'')
            \<and> \<not> truthy (get_attribute link_class ''id'')
            \<and> \<not> truthy (get_attribute link_class ''name'')
            \<and> truthy (get_attribute link_class ''class'')"
    by code_simp
  have v4: "page_key_of button_page @ ''_golden_'' @ tag_name link_class @ ''_''
              @ replace (CHR '' '') ''_'' (strip (the (get_attribute link_class ''class'')))
              = ''Login_Page_golden_a_nav_link''"
    by code_simp
  have e4: "generate_golden_identifier button_page ''//button'' (Some link_class)
              = ''Login_Page_golden_a_nav_link''"
    using T[of link_class] h4 v4 by metis
  have h5: "\<not> truthy (get_attribute link_text ''data-testid'')
            \<and> \<not> truthy (get_attribute link_text ''id'')
            \<and> \<not> truthy (get_attribute link_text ''name'')
            \<and> \<not> truthy (get_attribute link_text ''class'')
            \<and> strip (element_text link_text) \<noteq> []
            \<and> length (strip (element_text link_text)) < 20"
    by code_simp
  have v5: "page_key_of button_page @ ''_golden_'' @ tag_name link_text @ ''_''
              @ replace (CHR '' '') ''_'' (strip (element_text link_text))
              = ''Login_Page_golden_a_Log_out''"
    by code_simp
  have e5: "generate_golden_identifier button_page ''//button'' (Some link_text)
              = ''Login_Page_golden_a_Log_out''"
    using T[of link_text] h5 v5 by metis
  have h6: "\<not> truthy (get_attribute link_bare ''data-testid'')
            \<and> \<not> truthy (get_attribute link_bare ''id'')
            \<and> \<not> truthy (get_attribute link_bare ''name'')
            \<and> \<not> truthy (get_attribute link_bare ''class'')
            \<and> (strip (element_text link_bare) = []
                \<or> 20 \<le> length (strip (element_text link_bare)))"
    by code_simp
  have e6: "generate_golden_identifier button_page ''//button'' (Some link_bare)
              = ''Login_Page_golden___button''"
    using T[of link_bare] h6 c by metis
  show ?thesis using h c e1 e2 e3 e4 e5 e6 by (intro conjI)
qed

text \<open>
  C7, counterexample to the claim as stated: the captured button has a data-testid, and
  the agent stores its snapshot under the identifier made from the locator; nothing is
  stored under the identifier made from the data-testid.
\<close>

theorem golden_identifier_derivation_counterexample:
  "find_element button_page ''//button'' = Some example_button
   \<and> get_attribute example_button ''data-testid'' = Some ''go-btn''
   \<and> fst (capture_golden_if_missing fresh_agent button_page ''//button'' fresh_files)
       = Inr ''Login_Page_golden___button''
   \<and> the (self_global_data
          (fst (snd (capture_golden_if_missing fresh_agent button_page ''//button'' fresh_files)))
          ''Login_Page'') ''Login_Page_golden___button'' = Some example_button_golden
   \<and> the (self_global_data
          (fst (snd (capture_golden_if_missing fresh_agent button_page ''//button'' fresh_files)))
          ''Login_Page'') ''Login_Page_golden_go-btn'' = None"
  by code_simp

end
